theory Spec2Isabelle
  imports Main "HOL-Library.Char_ord" "HOL-Library.List_Lexorder"
begin

section \<open>Python values and exceptions\<close>

text \<open>
  The scalar values that flow through the rule engine: \<open>None\<close>, booleans, integers
  and strings. Floating-point values are outside the model. Strings are ASCII.
\<close>

datatype pyval = PyNone | PyBool bool | PyInt int | PyStr string

text \<open>
  The exceptions the code can raise, each a subclass of Python's \<open>Exception\<close>.
  \<open>Raised\<close> stands for any other \<open>Exception\<close> raised by a collaborator, with
  its message.
\<close>

datatype exc =
    FileNotFoundError string
  | JSONDecodeError string
  | KeyError pyval
  | ValueError string
  | Raised string

text \<open>Decimal digits of a natural number, as \<open>str\<close> prints them.\<close>

fun str_nat :: "nat \<Rightarrow> string" where
  "str_nat n =
     (if n < 10 then [''0123456789'' ! n]
      else str_nat (n div 10) @ [''0123456789'' ! (n mod 10)])"

declare str_nat.simps [simp del]

text \<open>\<open>str(v)\<close>.\<close>

fun py_str :: "pyval \<Rightarrow> string" where
  "py_str PyNone = ''None''"
| "py_str (PyBool b) = (if b then ''True'' else ''False'')"
| "py_str (PyInt i) = (if i < 0 then CHR ''-'' # str_nat (nat (- i)) else str_nat (nat i))"
| "py_str (PyStr s) = s"

text \<open>\<open>repr(v)\<close>, for strings that need no escaping.\<close>

fun py_repr :: "pyval \<Rightarrow> string" where
  "py_repr (PyStr s) = [CHR 0x27] @ s @ [CHR 0x27]"
| "py_repr v = py_str v"

text \<open>\<open>str(e)\<close>: the message; for a \<open>KeyError\<close> the \<open>repr\<close> of the key.\<close>

fun str_exc :: "exc \<Rightarrow> string" where
  "str_exc (FileNotFoundError m) = m"
| "str_exc (JSONDecodeError m) = m"
| "str_exc (KeyError k) = py_repr k"
| "str_exc (ValueError m) = m"
| "str_exc (Raised m) = m"

text \<open>Truthiness: what \<open>not v\<close> negates.\<close>

fun truthy :: "pyval \<Rightarrow> bool" where
  "truthy PyNone = False"
| "truthy (PyBool b) = b"
| "truthy (PyInt i) = (i \<noteq> 0)"
| "truthy (PyStr s) = (s \<noteq> [])"

text \<open>\<open>sep.join(xs)\<close>.\<close>

fun join :: "string \<Rightarrow> string list \<Rightarrow> string" where
  "join sep [] = []"
| "join sep [x] = x"
| "join sep (x # y # ys) = x @ sep @ join sep (y # ys)"

text \<open>\<open>s.split(',')\<close>: the fields of a composite key.\<close>

fun split_comma :: "string \<Rightarrow> string list" where
  "split_comma [] = [[]]"
| "split_comma (c # cs) =
     (if c = CHR '','' then [] # split_comma cs
      else (case split_comma cs of
              [] \<Rightarrow> [[c]]
            | f # fs \<Rightarrow> (c # f) # fs))"

section \<open>rule\_processor.py\<close>

text \<open>
  The parsed JSON document of a rule file, the dictionary \<open>rule_data\<close>. Each of the two
  entries the code reads may be absent from the document, in which case subscripting it
  raises \<open>KeyError\<close>. When present, \<open>input_parameters\<close> is a list of strings and
  \<open>rules\<close> a dictionary from strings to JSON scalars. A document that is not a JSON
  object, or whose two entries have other types, is outside the model.
\<close>

record rule_data =
  input_parameters :: "string list option"
  rules :: "(string \<rightharpoonup> pyval) option"

text \<open>
  What is found at a path: nothing that \<open>os.path.isfile\<close> accepts (\<open>None\<close>), a file
  that \<open>json.load\<close> rejects with a message, or a file that parses.
\<close>

datatype rule_file = Malformed string | Parsed rule_data

type_synonym files = "string \<Rightarrow> rule_file option"

definition load_rule :: "files \<Rightarrow> string \<Rightarrow> exc + rule_data" where
  "load_rule fs rule_path =
     (case fs rule_path of
        Some (Parsed d) \<Rightarrow> Inr d
      | Some (Malformed m) \<Rightarrow> Inl (JSONDecodeError m)
      | None \<Rightarrow> Inl (FileNotFoundError (''Rule file not found: '' @ rule_path)))"

text \<open>\<open>input_values.get(param, "")\<close>.\<close>

definition get_or_empty :: "(string \<rightharpoonup> pyval) \<Rightarrow> string \<Rightarrow> pyval" where
  "get_or_empty input_values param =
     (case input_values param of None \<Rightarrow> PyStr [] | Some v \<Rightarrow> v)"

text \<open>The lookup key of \<open>apply_rule\<close>.\<close>

definition build_key :: "(string \<rightharpoonup> pyval) \<Rightarrow> string list \<Rightarrow> string" where
  "build_key input_values params =
     join '','' (map (\<lambda>param. py_str (get_or_empty input_values param)) params)"

text \<open>
  \<open>apply_rule\<close>: the document is loaded, \<open>rule_data["input_parameters"]\<close> is read, the
  key is built, then \<open>rule_data["rules"]\<close> is read and \<open>.get(key, None)\<close> returned.
\<close>

definition apply_rule :: "files \<Rightarrow> string \<Rightarrow> (string \<rightharpoonup> pyval) \<Rightarrow> exc + pyval" where
  "apply_rule fs rule_path input_values =
     (case load_rule fs rule_path of
        Inl e \<Rightarrow> Inl e
      | Inr d \<Rightarrow>
          (case input_parameters d of
             None \<Rightarrow> Inl (KeyError (PyStr ''input_parameters''))
           | Some params \<Rightarrow>
               (let key = build_key input_values params in
                case rules d of
                  None \<Rightarrow> Inl (KeyError (PyStr ''rules''))
                | Some table \<Rightarrow>
                    Inr (case table key of None \<Rightarrow> PyNone | Some outcome \<Rightarrow> outcome))))"

section \<open>simple\_rule\_engine.py\<close>

text \<open>
  A row of the abstracted-measurements dataframe. The type \<open>'d\<close> is the type of the
  cells of the two date columns as the frame holds them: \<open>timestamp\<close> for a datetime
  column, \<open>string\<close> for a column of text dates. Its order is the order of the raw
  cells, which \<open>idxmax\<close> uses: the order of time on timestamps, the lexicographic order
  of the characters on text. \<open>pd.to_datetime\<close> turns a cell into a timestamp or raises;
  timestamps are integers, and the missing timestamp \<open>NaT\<close> is outside the model. A
  dataframe is the list of its rows in order, labelled \<open>0, 1, 2, ...\<close> as by the
  default index.
\<close>

type_synonym timestamp = int

record 'd observation =
  Concept_Name :: string
  StartDateTime :: 'd
  EndDateTime :: 'd
  Value :: pyval

type_synonym 'd dataframe = "'d observation list"

text \<open>
  The optional argument \<open>snapshot_date\<close>: Python's \<open>None\<close> is \<open>None\<close>; otherwise a
  string or a datetime object.
\<close>

datatype snapshot = SnapStr string | SnapTime timestamp

text \<open>The values stored in a result dictionary.\<close>

datatype 'd rvalue =
    RVal pyval
  | RSnap snapshot
  | RDict "(string \<times> pyval) list"
  | RFrame "'d dataframe"

text \<open>A dictionary with string keys, in insertion order.\<close>

type_synonym 'd pydict = "(string \<times> 'd rvalue) list"

text \<open>\<open>d[k] = v\<close>.\<close>

fun dict_set :: "'d pydict \<Rightarrow> string \<Rightarrow> 'd rvalue \<Rightarrow> 'd pydict" where
  "dict_set [] k v = [(k, v)]"
| "dict_set ((k', v') # d) k v =
     (if k' = k then (k, v) # d else (k', v') # dict_set d k v)"

text \<open>The keys of a dictionary, in order.\<close>

definition keys :: "'d pydict \<Rightarrow> string list" where
  "keys d = map fst d"

text \<open>A roster row: \<open>(patient_id, first_name, last_name, sex)\<close>.\<close>

type_synonym row = "pyval \<times> pyval \<times> pyval \<times> pyval"

text \<open>
  The collaborators and the configuration the engine reads, none of which it writes:
  the rule files, the path \<open>HEMATOLOGICAL_RULES\<close>, \<open>pd.to_datetime\<close> on a string,
  \<open>pd.to_datetime\<close> on a cell of a date column, \<open>Mediator.run\<close>, the clock
  (\<open>clock i\<close> is what \<open>datetime.now().strftime('%Y-%m-%d %H:%M:%S')\<close> returns while
  row \<open>i\<close> of the roster is analysed), the outcome of opening and reading the query
  file, and the outcome of \<open>DataAccess.fetch_records\<close> on the all-patients query.
\<close>

record 'd env =
  rule_files :: files
  HEMATOLOGICAL_RULES :: string
  to_datetime :: "string \<Rightarrow> exc + timestamp"
  to_datetime_cell :: "'d \<Rightarrow> exc + timestamp"
  mediator_run :: "string \<Rightarrow> snapshot \<Rightarrow> exc + 'd dataframe"
  clock :: "nat \<Rightarrow> string"
  query_file :: "exc + string"
  fetch_records :: "exc + row list"

definition get_hematological_state :: "'d env \<Rightarrow> pyval \<Rightarrow> pyval \<Rightarrow> exc + pyval" where
  "get_hematological_state e hemoglobin_state wbc_level =
     (if \<not> truthy hemoglobin_state \<or> \<not> truthy wbc_level then Inr PyNone
      else apply_rule (rule_files e) (HEMATOLOGICAL_RULES e)
             [''hemoglobin_state'' \<mapsto> hemoglobin_state, ''wbc_level'' \<mapsto> wbc_level])"

text \<open>
  \<open>pd.to_datetime\<close> on a column: every cell is converted, and the first cell that does
  not convert raises.
\<close>

fun to_datetime_series :: "('d \<Rightarrow> exc + timestamp) \<Rightarrow> 'd list \<Rightarrow> exc + timestamp list" where
  "to_datetime_series conv [] = Inr []"
| "to_datetime_series conv (x # xs) =
     (case conv x of
        Inl e \<Rightarrow> Inl e
      | Inr t \<Rightarrow>
          (case to_datetime_series conv xs of
             Inl e \<Rightarrow> Inl e
           | Inr ts \<Rightarrow> Inr (t # ts)))"

text \<open>
  \<open>Series.idxmax()\<close> on labelled raw cells: the label of the first occurrence of the
  maximum in the order of the cells; \<open>ValueError\<close> on an empty series.
\<close>

fun idxmax_from :: "nat \<Rightarrow> 'd::linorder \<Rightarrow> (nat \<times> 'd) list \<Rightarrow> nat" where
  "idxmax_from l m [] = l"
| "idxmax_from l m ((l', v) # xs) =
     (if m < v then idxmax_from l' v xs else idxmax_from l m xs)"

fun idxmax :: "(nat \<times> 'd::linorder) list \<Rightarrow> exc + nat" where
  "idxmax [] = Inl (ValueError ''attempt to get argmax of an empty sequence'')"
| "idxmax ((l, v) # xs) = Inr (idxmax_from l v xs)"

text \<open>\<open>frame.loc[label]\<close> on rows with distinct labels.\<close>

definition loc :: "(nat \<times> 'd observation) list \<Rightarrow> nat \<Rightarrow> exc + 'd observation" where
  "loc frame label =
     (case map_of frame label of
        None \<Rightarrow> Inl (KeyError (PyInt (int label)))
      | Some r \<Rightarrow> Inr r)"

text \<open>
  \<open>get_latest_abstracted_value\<close>. The mask compares the concept names, then converts
  the \<open>StartDateTime\<close> column and compares it with the snapshot instant, then does the
  same with the \<open>EndDateTime\<close> column. \<open>idxmax\<close> runs on the \<open>StartDateTime\<close> column
  of the filtered frame as the frame holds it, not on the converted column.
\<close>

definition get_latest_abstracted_value ::
  "('d::linorder \<Rightarrow> exc + timestamp) \<Rightarrow> 'd dataframe \<Rightarrow> string \<Rightarrow> timestamp \<Rightarrow> exc + pyval" where
  "get_latest_abstracted_value conv df concept_name snapshot_time =
     (if df = [] then Inr PyNone
      else
        (case to_datetime_series conv (map StartDateTime df) of
           Inl e \<Rightarrow> Inl e
         | Inr starts \<Rightarrow>
        (case to_datetime_series conv (map EndDateTime df) of
           Inl e \<Rightarrow> Inl e
         | Inr ends \<Rightarrow>
        (let concept_data =
               map fst
                 (filter (\<lambda>((i, r), (s, e)).
                            Concept_Name r = concept_name \<and>
                            s \<le> snapshot_time \<and>
                            e \<ge> snapshot_time)
                    (zip (enumerate 0 df) (zip starts ends)))
         in if concept_data = [] then Inr PyNone
            else
              (case idxmax (map (\<lambda>(i, r). (i, StartDateTime r)) concept_data) of
                 Inl e \<Rightarrow> Inl e
               | Inr label \<Rightarrow>
                   (case loc concept_data label of
                      Inl e \<Rightarrow> Inl e
                    | Inr latest \<Rightarrow> Inr (Value latest)))))))"

text \<open>
  A row passes the mask of \<open>get_latest_abstracted_value\<close>: its concept name is the
  requested one and its converted interval contains the snapshot instant, both bounds
  included.
\<close>

definition keeps ::
  "('d \<Rightarrow> exc + timestamp) \<Rightarrow> string \<Rightarrow> timestamp \<Rightarrow> 'd observation \<Rightarrow> bool" where
  "keeps conv concept_name snapshot_time r \<longleftrightarrow>
     Concept_Name r = concept_name \<and>
     (case conv (StartDateTime r) of Inl e \<Rightarrow> False | Inr s \<Rightarrow> s \<le> snapshot_time) \<and>
     (case conv (EndDateTime r) of Inl e \<Rightarrow> False | Inr e \<Rightarrow> e \<ge> snapshot_time)"

text \<open>Every date cell of the frame converts.\<close>

definition converts :: "('d \<Rightarrow> exc + timestamp) \<Rightarrow> 'd dataframe \<Rightarrow> bool" where
  "converts conv df \<longleftrightarrow>
     (\<forall>r \<in> set df.
        (case conv (StartDateTime r) of Inl e \<Rightarrow> False | Inr s \<Rightarrow> True) \<and>
        (case conv (EndDateTime r) of Inl e \<Rightarrow> False | Inr e \<Rightarrow> True))"

text \<open>The filtered frame \<open>concept_data\<close> when every date cell converts.\<close>

definition concept_rows ::
  "('d \<Rightarrow> exc + timestamp) \<Rightarrow> 'd dataframe \<Rightarrow> string \<Rightarrow> timestamp \<Rightarrow>
     (nat \<times> 'd observation) list" where
  "concept_rows conv df c t = filter (\<lambda>(i, r). keeps conv c t r) (enumerate 0 df)"

text \<open>\<open>s.strip()\<close> on an ASCII string.\<close>

definition is_space :: "char \<Rightarrow> bool" where
  "is_space c \<longleftrightarrow>
     c \<in> set [CHR 0x09, CHR 0x0A, CHR 0x0B, CHR 0x0C, CHR 0x0D,
               CHR 0x1C, CHR 0x1D, CHR 0x1E, CHR 0x1F, CHR 0x20]"

definition py_strip :: "string \<Rightarrow> string" where
  "py_strip s = rev (dropWhile is_space (rev (dropWhile is_space s)))"

text \<open>\<open>snapshot_date or now\<close>.\<close>

fun snapshot_or :: "snapshot option \<Rightarrow> string \<Rightarrow> snapshot" where
  "snapshot_or None now = SnapStr now"
| "snapshot_or (Some (SnapStr s)) now = (if s = [] then SnapStr now else SnapStr s)"
| "snapshot_or (Some (SnapTime t)) now = SnapTime t"

text \<open>The conversion of the snapshot date to the instant used for filtering.\<close>

fun snapshot_time_of :: "'d env \<Rightarrow> snapshot \<Rightarrow> exc + timestamp" where
  "snapshot_time_of e (SnapStr s) = to_datetime e s"
| "snapshot_time_of e (SnapTime t) = Inr t"

text \<open>
  \<open>analyze_patient_hematological_state\<close>; \<open>now\<close> is the clock reading at the call.
\<close>

definition analyze_patient_hematological_state ::
  "'d::linorder env \<Rightarrow> string \<Rightarrow> pyval \<Rightarrow> snapshot option \<Rightarrow> exc + 'd pydict" where
  "analyze_patient_hematological_state e now patient_id0 snapshot_date0 =
     (let patient_id = py_strip (py_str patient_id0);
          snapshot_date = snapshot_or snapshot_date0 now
      in case snapshot_time_of e snapshot_date of
           Inl x \<Rightarrow> Inl x
         | Inr snapshot_time \<Rightarrow>
        (case mediator_run e patient_id snapshot_date of
           Inl x \<Rightarrow> Inl x
         | Inr abstracted_df \<Rightarrow>
        if abstracted_df = [] then
          Inr [(''patient_id'', RVal (PyStr patient_id)),
               (''snapshot_date'', RSnap snapshot_date),
               (''hemoglobin_state'', RVal PyNone),
               (''wbc_level'', RVal PyNone),
               (''hematological_state'', RVal PyNone),
               (''error'', RVal (PyStr ''No abstracted data available for this patient''))]
        else
        (case get_latest_abstracted_value (to_datetime_cell e) abstracted_df
                ''Hemoglobin_Level'' snapshot_time of
           Inl x \<Rightarrow> Inl x
         | Inr hemoglobin_state \<Rightarrow>
        (case get_latest_abstracted_value (to_datetime_cell e) abstracted_df
                ''WBC_Level'' snapshot_time of
           Inl x \<Rightarrow> Inl x
         | Inr wbc_level \<Rightarrow>
        (case get_hematological_state e hemoglobin_state wbc_level of
           Inl x \<Rightarrow> Inl x
         | Inr hematological_state \<Rightarrow>
          Inr [(''patient_id'', RVal (PyStr patient_id)),
               (''snapshot_date'', RSnap snapshot_date),
               (''individual_states'',
                  RDict [(''hemoglobin_state'', hemoglobin_state),
                         (''wbc_level'', wbc_level)]),
               (''hematological_state'', RVal hematological_state),
               (''abstracted_data'', RFrame abstracted_df)])))))"

text \<open>
  The body of the loop of \<open>analyze_all_patients_hematological_state\<close> for row
  number \<open>i\<close>: the \<open>try\<close> block and its \<open>except Exception\<close> handler; the
  value is the dictionary appended to \<open>results\<close>.
\<close>

fun scan_row :: "'d::linorder env \<Rightarrow> snapshot option \<Rightarrow> nat \<Rightarrow> row \<Rightarrow> 'd pydict" where
  "scan_row e snapshot_date i (patient_id, first_name, last_name, sex) =
     (case analyze_patient_hematological_state e (clock e i) patient_id snapshot_date of
        Inr analysis \<Rightarrow>
          dict_set (dict_set analysis ''first_name'' (RVal first_name))
            ''last_name'' (RVal last_name)
      | Inl x \<Rightarrow>
          [(''patient_id'', RVal patient_id),
           (''first_name'', RVal first_name),
           (''last_name'', RVal last_name),
           (''error'', RVal (PyStr (str_exc x)))])"

text \<open>The loop itself, from row number \<open>i\<close> on, appending to \<open>results\<close>.\<close>

fun scan_patients ::
  "'d::linorder env \<Rightarrow> snapshot option \<Rightarrow> nat \<Rightarrow> row list \<Rightarrow> 'd pydict list \<Rightarrow>
     'd pydict list" where
  "scan_patients e snapshot_date i [] results = results"
| "scan_patients e snapshot_date i (r # rest) results =
     scan_patients e snapshot_date (Suc i) rest (results @ [scan_row e snapshot_date i r])"

text \<open>
  \<open>analyze_all_patients_hematological_state\<close>: the query file is opened and read
  (for printing), the roster is fetched, and the rows are scanned. Printing is not
  modelled, and the import of \<open>GET_ALL_PATIENTS_QUERY\<close> is taken to succeed. An
  exception of the first two steps is raised to the caller; inside the loop only the
  \<open>try\<close> block can raise, and its handler catches every \<open>Exception\<close>.
\<close>

definition analyze_all_patients_hematological_state ::
  "'d::linorder env \<Rightarrow> snapshot option \<Rightarrow> exc + 'd pydict list" where
  "analyze_all_patients_hematological_state e snapshot_date =
     (case query_file e of
        Inl x \<Rightarrow> Inl x
      | Inr sql \<Rightarrow>
          (case fetch_records e of
             Inl x \<Rightarrow> Inl x
           | Inr all_patients \<Rightarrow>
               if all_patients = [] then Inr []
               else Inr (scan_patients e snapshot_date 0 all_patients [])))"

text \<open>The keys of the dictionary an analysis returns; none when it raises.\<close>

definition result_keys :: "exc + 'd pydict \<Rightarrow> string list" where
  "result_keys x = (case x of Inl _ \<Rightarrow> [] | Inr r \<Rightarrow> keys r)"

section \<open>A worked scenario\<close>

text \<open>
  The rule table of the hematological rule with one more entry, and a small world
  whose frames hold timestamps: patient 1 has overlapping hemoglobin intervals and two
  WBC rows that start at the same instant, the mediator fails for patient 2, patient 3
  has a WBC row only, and every other patient has no abstracted data.
\<close>

definition demo_rules :: rule_data where
  "demo_rules =
     \<lparr>input_parameters = Some [''hemoglobin_state'', ''wbc_level''],
      rules = Some [''Severe Anemia,Low'' \<mapsto> PyStr ''Critical Hematological State'',
                    '',Low'' \<mapsto> PyStr ''Unknown State'']\<rparr>"

definition demo_path :: string where
  "demo_path = ''rules/hematological_rules.json''"

definition demo_files :: files where
  "demo_files = [demo_path \<mapsto> Parsed demo_rules]"

definition demo_df :: "timestamp dataframe" where
  "demo_df =
     [\<lparr>Concept_Name = ''Hemoglobin_Level'', StartDateTime = 10, EndDateTime = 50,
        Value = PyStr ''Mild Anemia''\<rparr>,
      \<lparr>Concept_Name = ''Hemoglobin_Level'', StartDateTime = 20, EndDateTime = 60,
        Value = PyStr ''Severe Anemia''\<rparr>,
      \<lparr>Concept_Name = ''WBC_Level'', StartDateTime = 5, EndDateTime = 100,
        Value = PyStr ''Low''\<rparr>,
      \<lparr>Concept_Name = ''WBC_Level'', StartDateTime = 5, EndDateTime = 100,
        Value = PyStr ''High''\<rparr>]"

definition demo_wbc_only :: "timestamp dataframe" where
  "demo_wbc_only =
     [\<lparr>Concept_Name = ''WBC_Level'', StartDateTime = 5, EndDateTime = 100,
        Value = PyStr ''Low''\<rparr>]"

definition demo_now :: string where
  "demo_now = ''2024-01-01 00:00:30''"

definition demo_env :: "timestamp env" where
  "demo_env =
     \<lparr>rule_files = demo_files,
      HEMATOLOGICAL_RULES = demo_path,
      to_datetime = (\<lambda>s. if s = demo_now then Inr 30
                         else Inl (ValueError ''Unknown datetime string format'')),
      to_datetime_cell = Inr,
      mediator_run = (\<lambda>patient_id snapshot_date.
                        if patient_id = ''1'' then Inr demo_df
                        else if patient_id = ''2'' then Inl (Raised ''connection lost'')
                        else if patient_id = ''3'' then Inr demo_wbc_only
                        else Inr []),
      clock = (\<lambda>i. demo_now),
      query_file = Inr ''SELECT * FROM Patients'',
      fetch_records = Inr [(PyInt 1, PyStr ''Ann'', PyStr ''Lee'', PyStr ''F''),
                           (PyStr '' 2 '', PyStr ''Bo'', PyStr ''Kim'', PyStr ''M''),
                           (PyInt 3, PyStr ''Cy'', PyStr ''Roe'', PyStr ''F'')]\<rparr>"

text \<open>A frame of timestamps whose only row holds \<open>None\<close> as its value.\<close>

definition demo_null_df :: "timestamp dataframe" where
  "demo_null_df =
     [\<lparr>Concept_Name = ''WBC_Level'', StartDateTime = 5, EndDateTime = 100,
        Value = PyNone\<rparr>]"

text \<open>
  Frames of text dates, written month/day/year, and their conversion to the day of the
  year 2024. As text, \<open>9/1/2024\<close> is greater than \<open>10/1/2024\<close>; as a date it is
  earlier.
\<close>

definition demo_text_dates :: "string \<Rightarrow> exc + timestamp" where
  "demo_text_dates s =
     (if s = ''9/1/2024'' then Inr 245
      else if s = ''10/1/2024'' then Inr 275
      else if s = ''12/31/2024'' then Inr 366
      else Inl (ValueError ''Unknown datetime string format''))"

definition demo_text_df :: "string dataframe" where
  "demo_text_df =
     [\<lparr>Concept_Name = ''Hemoglobin_Level'', StartDateTime = ''9/1/2024'',
        EndDateTime = ''12/31/2024'', Value = PyStr ''Mild Anemia''\<rparr>,
      \<lparr>Concept_Name = ''Hemoglobin_Level'', StartDateTime = ''10/1/2024'',
        EndDateTime = ''12/31/2024'', Value = PyStr ''Severe Anemia''\<rparr>]"


section \<open>Properties of the temporal value extractor\<close>

text \<open>
  \<open>idxmax\<close> on labels in increasing order returns a label that carries the maximum,
  and every earlier label carries a strictly smaller value.
\<close>

lemma idxmax_from_spec:
  "sorted_wrt (<) (map fst ((l, m) # xs)) \<Longrightarrow>
   \<exists>v. (idxmax_from l m xs, v) \<in> set ((l, m) # xs) \<and>
       (\<forall>(l', v') \<in> set ((l, m) # xs). v' \<le> v \<and> (l' < idxmax_from l m xs \<longrightarrow> v' < v))"
proof (induction xs arbitrary: l m)
  case Nil
  then show ?case by simp
next
  case (Cons a xs)
  obtain l' v' where a: "a = (l', v')" by (cases a)
  show ?case
  proof (cases "m < v'")
    case True
    from Cons.prems a have s: "sorted_wrt (<) (map fst ((l', v') # xs))" by simp
    from Cons.IH [OF s] obtain v where
      v: "(idxmax_from l' v' xs, v) \<in> set ((l', v') # xs)"
         "\<forall>(k, w) \<in> set ((l', v') # xs). w \<le> v \<and> (k < idxmax_from l' v' xs \<longrightarrow> w < v)"
      by blast
    from v(2) have "v' \<le> v" by auto
    with True have "m < v" by simp
    with v True a show ?thesis by auto
  next
    case False
    from Cons.prems a have s: "sorted_wrt (<) (map fst ((l, m) # xs))" by auto
    from Cons.IH [OF s] obtain v where
      v: "(idxmax_from l m xs, v) \<in> set ((l, m) # xs)"
         "\<forall>(k, w) \<in> set ((l, m) # xs). w \<le> v \<and> (k < idxmax_from l m xs \<longrightarrow> w < v)"
      by blast
    from v(2) have mv: "m \<le> v" "l < idxmax_from l m xs \<longrightarrow> m < v" by auto
    from Cons.prems a have ll: "l < l'" by simp
    have "v' \<le> v" using False mv by simp
    moreover have "l' < idxmax_from l m xs \<longrightarrow> v' < v" using False mv ll by auto
    ultimately show ?thesis using v False a by auto
  qed
qed

text \<open>The conversion of a column returns exactly when each cell converts.\<close>

lemma to_datetime_series_Inr:
  "to_datetime_series conv xs = Inr ts \<longleftrightarrow>
     length ts = length xs \<and> (\<forall>i < length xs. conv (xs ! i) = Inr (ts ! i))"
proof (induction xs arbitrary: ts)
  case Nil
  then show ?case by auto
next
  case (Cons x xs)
  show ?case
  proof (cases ts)
    case Nil
    then show ?thesis by (auto split: sum.splits)
  next
    case (Cons t ts')
    with Cons.IH [of ts'] show ?thesis
      by (auto simp: less_Suc_eq_0_disj split: sum.splits)
  qed
qed

lemma to_datetime_series_total:
  "(\<exists>ts. to_datetime_series conv xs = Inr ts) \<longleftrightarrow>
     (\<forall>x \<in> set xs. \<exists>t. conv x = Inr t)"
  by (induction xs) (auto split: sum.splits)

lemma converts_series:
  "converts conv df \<longleftrightarrow>
     (\<exists>starts. to_datetime_series conv (map StartDateTime df) = Inr starts) \<and>
     (\<exists>ends. to_datetime_series conv (map EndDateTime df) = Inr ends)"
proof -
  have ok: "(case x of Inl e \<Rightarrow> False | Inr s \<Rightarrow> True) \<longleftrightarrow> (\<exists>t. x = Inr t)"
    for x :: "exc + timestamp"
    by (cases x) simp_all
  show ?thesis
    unfolding to_datetime_series_total converts_def ok by auto
qed

text \<open>When the columns convert, the filtered frame holds the rows that pass the mask.\<close>

lemma concept_data_rows:
  assumes "to_datetime_series conv (map StartDateTime df) = Inr starts"
    and "to_datetime_series conv (map EndDateTime df) = Inr ends"
  shows "map fst
           (filter (\<lambda>((i, r), (s, e)). Concept_Name r = c \<and> s \<le> t \<and> e \<ge> t)
              (zip (enumerate n df) (zip starts ends))) =
         filter (\<lambda>(i, r). keeps conv c t r) (enumerate n df)"
  using assms
proof (induction df arbitrary: n starts ends)
  case Nil
  then show ?case by simp
next
  case (Cons r df)
  from Cons.prems(1) obtain s starts' where
    s: "conv (StartDateTime r) = Inr s" "starts = s # starts'"
       "to_datetime_series conv (map StartDateTime df) = Inr starts'"
    by (auto split: sum.splits)
  from Cons.prems(2) obtain e ends' where
    e: "conv (EndDateTime r) = Inr e" "ends = e # ends'"
       "to_datetime_series conv (map EndDateTime df) = Inr ends'"
    by (auto split: sum.splits)
  from Cons.IH [OF s(3) e(3), of "Suc n"] s e show ?case
    by (simp add: keeps_def)
qed

lemma get_latest_unfold:
  assumes "converts conv df"
  shows "get_latest_abstracted_value conv df c t =
     (if concept_rows conv df c t = [] then Inr PyNone
      else case idxmax (map (\<lambda>(i, r). (i, StartDateTime r)) (concept_rows conv df c t)) of
             Inl e \<Rightarrow> Inl e
           | Inr label \<Rightarrow>
               (case loc (concept_rows conv df c t) label of
                  Inl e \<Rightarrow> Inl e
                | Inr latest \<Rightarrow> Inr (Value latest)))"
proof (cases "df = []")
  case True
  then show ?thesis by (simp add: get_latest_abstracted_value_def concept_rows_def)
next
  case False
  from assms obtain starts ends where
    se: "to_datetime_series conv (map StartDateTime df) = Inr starts"
        "to_datetime_series conv (map EndDateTime df) = Inr ends"
    unfolding converts_series by blast
  have cd: "map fst
           (filter (\<lambda>((i, r), (s, e)). Concept_Name r = c \<and> s \<le> t \<and> e \<ge> t)
              (zip (enumerate 0 df) (zip starts ends))) = concept_rows conv df c t"
    unfolding concept_rows_def by (rule concept_data_rows [OF se])
  show ?thesis
    unfolding get_latest_abstracted_value_def Let_def se sum.case cd
    using False by simp
qed

text \<open>
  On a frame that is not empty the extraction raises exactly when some date cell does
  not convert, whatever the concept and the instant.
\<close>

lemma get_latest_raises:
  assumes "df \<noteq> []" and "\<not> converts conv df"
  shows "\<exists>x. get_latest_abstracted_value conv df c t = Inl x"
proof (cases "to_datetime_series conv (map StartDateTime df)")
  case (Inl x)
  with assms(1) show ?thesis by (simp add: get_latest_abstracted_value_def)
next
  case (Inr starts)
  with assms(2) have "\<nexists>ends. to_datetime_series conv (map EndDateTime df) = Inr ends"
    unfolding converts_series by blast
  then obtain x where "to_datetime_series conv (map EndDateTime df) = Inl x"
    by (cases "to_datetime_series conv (map EndDateTime df)") auto
  with Inr assms(1) show ?thesis by (simp add: get_latest_abstracted_value_def)
qed

lemma in_concept_rows:
  "(i, r) \<in> set (concept_rows conv df c t) \<longleftrightarrow> i < length df \<and> r = df ! i \<and> keeps conv c t r"
  by (auto simp: concept_rows_def in_set_enumerate_eq)

lemma sorted_concept_rows: "sorted_wrt (<) (map fst (concept_rows conv df c t))"
proof -
  have "sorted_wrt (\<lambda>x y. fst x < fst y) (enumerate 0 df)"
    using sorted_wrt_map [of "(<)" fst "enumerate 0 df"] by simp
  then have "sorted_wrt (\<lambda>x y. fst x < fst y) (concept_rows conv df c t)"
    unfolding concept_rows_def by (rule sorted_wrt_filter)
  then show ?thesis by (simp add: sorted_wrt_map)
qed

lemma distinct_concept_rows: "distinct (map fst (concept_rows conv df c t))"
  using sorted_concept_rows [of conv df c t] by (simp add: strict_sorted_iff)

lemma loc_concept_rows:
  "(l, r) \<in> set (concept_rows conv df c t) \<Longrightarrow> loc (concept_rows conv df c t) l = Inr (df ! l)"
  using distinct_concept_rows [of conv df c t]
  by (auto simp: loc_def in_concept_rows dest!: map_of_is_SomeI)

lemma idxmax_concept_rows:
  assumes ne: "concept_rows conv df c t \<noteq> []"
  shows "\<exists>l. idxmax (map (\<lambda>(i, r). (i, StartDateTime r)) (concept_rows conv df c t)) = Inr l \<and>
             l < length df \<and> keeps conv c t (df ! l) \<and>
             (\<forall>j < length df. keeps conv c t (df ! j) \<longrightarrow>
                StartDateTime (df ! j) \<le> StartDateTime (df ! l) \<and>
                (j < l \<longrightarrow> StartDateTime (df ! j) < StartDateTime (df ! l)))"
proof -
  let ?s = "map (\<lambda>(i, r). (i, StartDateTime r)) (concept_rows conv df c t)"
  have fst_s: "map fst ?s = map fst (concept_rows conv df c t)" by (simp add: case_prod_beta comp_def)
  have mem: "(i, v) \<in> set ?s \<longleftrightarrow> i < length df \<and> keeps conv c t (df ! i) \<and> v = StartDateTime (df ! i)" for i v
    by (force simp: in_concept_rows)
  from ne obtain l m xs where s: "?s = (l, m) # xs"
    by (cases ?s) auto
  have "sorted_wrt (<) (map fst ((l, m) # xs))"
    using sorted_concept_rows [of conv df c t] fst_s s by simp
  from idxmax_from_spec [OF this] obtain v where
    v: "(idxmax_from l m xs, v) \<in> set ?s"
       "\<forall>(l', v') \<in> set ?s. v' \<le> v \<and> (l' < idxmax_from l m xs \<longrightarrow> v' < v)"
    unfolding s by blast
  let ?L = "idxmax_from l m xs"
  from v(1) mem [of ?L v]
  have L: "?L < length df" "keeps conv c t (df ! ?L)" "v = StartDateTime (df ! ?L)"
    by blast+
  have "\<forall>j < length df. keeps conv c t (df ! j) \<longrightarrow>
          StartDateTime (df ! j) \<le> StartDateTime (df ! ?L) \<and>
          (j < ?L \<longrightarrow> StartDateTime (df ! j) < StartDateTime (df ! ?L))"
  proof (intro allI impI)
    fix j assume "j < length df" "keeps conv c t (df ! j)"
    with mem [of j "StartDateTime (df ! j)"]
    have "(j, StartDateTime (df ! j)) \<in> set ?s" by blast
    with v(2) L(3) show "StartDateTime (df ! j) \<le> StartDateTime (df ! ?L) \<and>
          (j < ?L \<longrightarrow> StartDateTime (df ! j) < StartDateTime (df ! ?L))" by blast
  qed
  moreover have "idxmax ?s = Inr ?L" by (simp add: s)
  ultimately show ?thesis using L by blast
qed

lemma concept_rows_empty_iff:
  "concept_rows conv df c t = [] \<longleftrightarrow> (\<forall>r \<in> set df. \<not> keeps conv c t r)"
proof
  assume e: "concept_rows conv df c t = []"
  show "\<forall>r \<in> set df. \<not> keeps conv c t r"
  proof
    fix r assume "r \<in> set df"
    then obtain i where "i < length df" "r = df ! i" by (auto simp: in_set_conv_nth)
    show "\<not> keeps conv c t r"
    proof
      assume "keeps conv c t r"
      with \<open>i < length df\<close> \<open>r = df ! i\<close> have "(i, r) \<in> set (concept_rows conv df c t)"
        by (simp add: in_concept_rows)
      with e show False by simp
    qed
  qed
next
  assume a: "\<forall>r \<in> set df. \<not> keeps conv c t r"
  show "concept_rows conv df c t = []"
  proof (rule ccontr)
    assume "concept_rows conv df c t \<noteq> []"
    then obtain i r where "(i, r) \<in> set (concept_rows conv df c t)"
      by (cases "concept_rows conv df c t") auto
    then have "r \<in> set df" "keeps conv c t r" by (auto simp: in_concept_rows)
    with a show False by blast
  qed
qed

lemma get_latest_none:
  "converts conv df \<Longrightarrow> \<forall>r \<in> set df. \<not> keeps conv c t r \<Longrightarrow>
   get_latest_abstracted_value conv df c t = Inr PyNone"
  by (simp add: get_latest_unfold concept_rows_empty_iff)

lemma get_latest_some:
  assumes cv: "converts conv df" and "\<exists>r \<in> set df. keeps conv c t r"
  shows "\<exists>l < length df. get_latest_abstracted_value conv df c t = Inr (Value (df ! l)) \<and>
             keeps conv c t (df ! l) \<and>
             (\<forall>j < length df. keeps conv c t (df ! j) \<longrightarrow>
                StartDateTime (df ! j) \<le> StartDateTime (df ! l) \<and>
                (j < l \<longrightarrow> StartDateTime (df ! j) < StartDateTime (df ! l)))"
proof -
  from assms(2) have ne: "concept_rows conv df c t \<noteq> []" by (simp add: concept_rows_empty_iff)
  from idxmax_concept_rows [OF ne] obtain l where
    l: "idxmax (map (\<lambda>(i, r). (i, StartDateTime r)) (concept_rows conv df c t)) = Inr l"
       "l < length df" "keeps conv c t (df ! l)"
       "\<forall>j < length df. keeps conv c t (df ! j) \<longrightarrow>
                StartDateTime (df ! j) \<le> StartDateTime (df ! l) \<and>
                (j < l \<longrightarrow> StartDateTime (df ! j) < StartDateTime (df ! l))"
    by blast
  from l(2,3) have "(l, df ! l) \<in> set (concept_rows conv df c t)" by (simp add: in_concept_rows)
  then have "loc (concept_rows conv df c t) l = Inr (df ! l)" by (rule loc_concept_rows)
  with ne l(1) have "get_latest_abstracted_value conv df c t = Inr (Value (df ! l))"
    by (simp add: get_latest_unfold [OF cv])
  with l show ?thesis by blast
qed

lemma get_latest_first_max:
  assumes cv: "converts conv df"
    and i: "i < length df" "keeps conv c t (df ! i)"
    and mx: "\<forall>j < length df. keeps conv c t (df ! j) \<longrightarrow> StartDateTime (df ! j) \<le> StartDateTime (df ! i)"
    and fst: "\<forall>j < i. keeps conv c t (df ! j) \<longrightarrow> StartDateTime (df ! j) < StartDateTime (df ! i)"
  shows "get_latest_abstracted_value conv df c t = Inr (Value (df ! i))"
proof -
  from i have "\<exists>r \<in> set df. keeps conv c t r" using nth_mem by blast
  from get_latest_some [OF cv this] obtain l where
    l: "l < length df" "get_latest_abstracted_value conv df c t = Inr (Value (df ! l))"
       "keeps conv c t (df ! l)"
       "\<forall>j < length df. keeps conv c t (df ! j) \<longrightarrow>
                StartDateTime (df ! j) \<le> StartDateTime (df ! l) \<and>
                (j < l \<longrightarrow> StartDateTime (df ! j) < StartDateTime (df ! l))"
    by blast
  have "l = i"
  proof (rule ccontr)
    assume "l \<noteq> i"
    then consider "l < i" | "i < l" by linarith
    then show False
    proof cases
      case 1
      with fst l(3) have "StartDateTime (df ! l) < StartDateTime (df ! i)" by blast
      moreover from l(4) i have "StartDateTime (df ! i) \<le> StartDateTime (df ! l)" by blast
      ultimately show False by simp
    next
      case 2
      with l(4) i have "StartDateTime (df ! i) < StartDateTime (df ! l)" by blast
      moreover from mx l(1,3) have "StartDateTime (df ! l) \<le> StartDateTime (df ! i)" by blast
      ultimately show False by simp
    qed
  qed
  with l(2) show ?thesis by simp
qed

section \<open>Properties of composite keys\<close>

lemma str_nat_nonempty: "str_nat n \<noteq> []"
  by (subst str_nat.simps) simp

lemma py_str_truthy: "truthy v \<Longrightarrow> py_str v \<noteq> []"
  by (cases v) (auto simp: str_nat_nonempty)

lemma split_comma_nonempty: "split_comma s \<noteq> []"
  by (induction s) (auto split: list.splits)

lemma length_split_comma: "length (split_comma s) = Suc (count_list s CHR '','')"
proof (induction s)
  case Nil
  then show ?case by simp
next
  case (Cons c cs)
  then show ?case
    using split_comma_nonempty [of cs] by (auto split: list.splits)
qed

lemma split_comma_field:
  "CHR '','' \<notin> set v \<Longrightarrow> split_comma (v @ CHR '','' # rest) = v # split_comma rest"
  by (induction v) auto

lemma split_comma_single: "CHR '','' \<notin> set v \<Longrightarrow> split_comma v = [v]"
  by (induction v) auto

lemma join_Cons: "join sep (x # xs) = (if xs = [] then x else x @ sep @ join sep xs)"
  by (cases xs) simp_all

lemma split_comma_join:
  "vs \<noteq> [] \<Longrightarrow> \<forall>v \<in> set vs. CHR '','' \<notin> set v \<Longrightarrow> split_comma (join '','' vs) = vs"
proof (induction vs)
  case Nil
  then show ?case by simp
next
  case (Cons x xs)
  show ?case
  proof (cases "xs = []")
    case True
    with Cons.prems show ?thesis by (simp add: split_comma_single)
  next
    case False
    with Cons have "split_comma (join '','' xs) = xs" by simp
    with False Cons.prems show ?thesis
      by (simp add: join_Cons split_comma_field)
  qed
qed

lemma count_join:
  "count_list (join '','' vs) CHR '','' =
     (length vs - 1) + sum_list (map (\<lambda>v. count_list v CHR '','') vs)"
proof (induction vs)
  case Nil
  then show ?case by simp
next
  case (Cons x xs)
  then show ?case by (cases "xs = []") (simp_all add: join_Cons)
qed

lemma count_list_zero: "count_list v c = 0 \<longleftrightarrow> c \<notin> set v"
  by (induction v) auto

lemma join_fields_exact:
  assumes len: "length (split_comma (join '','' vs)) = length vs"
  shows "split_comma (join '','' vs) = vs"
proof -
  define S where "S = sum_list (map (\<lambda>v. count_list v CHR '','') vs)"
  from len split_comma_nonempty [of "join '','' vs"] have ne: "vs \<noteq> []" by auto
  then have pos: "0 < length vs" by simp
  have "Suc (count_list (join '','' vs) CHR '','') = length vs"
    using len by (simp add: length_split_comma)
  moreover have "count_list (join '','' vs) CHR '','' = (length vs - 1) + S"
    unfolding S_def by (rule count_join)
  ultimately have "S = 0" using pos by arith
  then have "\<forall>v \<in> set vs. CHR '','' \<notin> set v"
    unfolding S_def by (auto simp: count_list_zero)
  with ne show ?thesis by (rule split_comma_join)
qed

lemma build_key_not_empty_field:
  assumes hw: "truthy h" "truthy w"
    and i: "i < length params" "params ! i = ''hemoglobin_state'' \<or> params ! i = ''wbc_level''"
    and k: "length (split_comma k) = length params" "split_comma k ! i = []"
  shows "build_key [''hemoglobin_state'' \<mapsto> h, ''wbc_level'' \<mapsto> w] params \<noteq> k"
proof
  let ?iv = "[''hemoglobin_state'' \<mapsto> h, ''wbc_level'' \<mapsto> w]"
  let ?vs = "map (\<lambda>param. py_str (get_or_empty ?iv param)) params"
  assume "build_key ?iv params = k"
  then have e: "k = join '','' ?vs" by (simp add: build_key_def)
  with k(1) have "length (split_comma (join '','' ?vs)) = length ?vs" by simp
  then have "split_comma (join '','' ?vs) = ?vs" by (rule join_fields_exact)
  with e k(2) have "?vs ! i = []" by simp
  with i(1) have "py_str (get_or_empty ?iv (params ! i)) = []" by simp
  moreover from i(2) hw have "truthy (get_or_empty ?iv (params ! i))"
    by (auto simp: get_or_empty_def)
  ultimately show False using py_str_truthy by blast
qed

lemma get_hematological_state_falsy:
  "\<not> truthy h \<or> \<not> truthy w \<Longrightarrow> get_hematological_state e h w = Inr PyNone"
  by (auto simp: get_hematological_state_def)

lemma get_hematological_state_entry_irrelevant:
  assumes f: "rule_files e (HEMATOLOGICAL_RULES e) = Some (Parsed d)"
    and d: "input_parameters d = Some params" "rules d = Some table"
    and i: "i < length params" "params ! i = ''hemoglobin_state'' \<or> params ! i = ''wbc_level''"
    and k: "length (split_comma k) = length params" "split_comma k ! i = []"
  shows "get_hematological_state
           (e\<lparr>rule_files := (rule_files e)(HEMATOLOGICAL_RULES e \<mapsto>
                Parsed (d\<lparr>rules := Some (table(k := x))\<rparr>))\<rparr>) h w =
         get_hematological_state e h w"
proof (cases "truthy h \<and> truthy w")
  case False
  then show ?thesis by (auto simp: get_hematological_state_def)
next
  case True
  then have "build_key [''hemoglobin_state'' \<mapsto> h, ''wbc_level'' \<mapsto> w] params \<noteq> k"
    using i k by (intro build_key_not_empty_field) auto
  with True f d show ?thesis
    by (simp add: get_hematological_state_def apply_rule_def load_rule_def Let_def)
qed

section \<open>The rule evaluator\<close>

text \<open>
  Claim C1. For a rule file that parses to a document with both entries, \<open>apply_rule\<close>
  looks up the key made of one field per declared parameter, in declared order, joined
  by commas; the field of a parameter is the string form of its input value, and the
  empty string when the input mapping has no such parameter. It returns the table's
  outcome at that key, and \<open>None\<close> when the table has no such key. With two declared
  parameters the key is the first string form, a comma, and the second string form.
\<close>

theorem apply_rule_key_lookup:
  assumes "fs rule_path = Some (Parsed d)"
    and "input_parameters d = Some params"
    and "rules d = Some table"
  shows "(\<exists>fields. length fields = length params \<and>
            (\<forall>i < length params.
               fields ! i = (case input_values (params ! i) of
                               None \<Rightarrow> [] | Some v \<Rightarrow> py_str v)) \<and>
            apply_rule fs rule_path input_values =
              Inr (case table (join '','' fields) of
                     None \<Rightarrow> PyNone | Some outcome \<Rightarrow> outcome)) \<and>
         (params = [pa, pb] \<and> input_values pa = Some va \<and> input_values pb = Some vb \<longrightarrow>
            apply_rule fs rule_path input_values =
              Inr (case table (py_str va @ '','' @ py_str vb) of
                     None \<Rightarrow> PyNone | Some outcome \<Rightarrow> outcome))"
proof (intro conjI impI)
  let ?fields = "map (\<lambda>param. py_str (get_or_empty input_values param)) params"
  have a: "apply_rule fs rule_path input_values =
             Inr (case table (join '','' ?fields) of
                    None \<Rightarrow> PyNone | Some outcome \<Rightarrow> outcome)"
    using assms by (simp add: apply_rule_def load_rule_def build_key_def)
  have "\<forall>i < length params.
          ?fields ! i = (case input_values (params ! i) of
                           None \<Rightarrow> [] | Some v \<Rightarrow> py_str v)"
    by (simp add: get_or_empty_def split: option.splits)
  with a show "\<exists>fields. length fields = length params \<and>
            (\<forall>i < length params.
               fields ! i = (case input_values (params ! i) of
                               None \<Rightarrow> [] | Some v \<Rightarrow> py_str v)) \<and>
            apply_rule fs rule_path input_values =
              Inr (case table (join '','' fields) of
                     None \<Rightarrow> PyNone | Some outcome \<Rightarrow> outcome)"
    by (intro exI [of _ ?fields]) simp
next
  assume "params = [pa, pb] \<and> input_values pa = Some va \<and> input_values pb = Some vb"
  with assms show "apply_rule fs rule_path input_values =
              Inr (case table (py_str va @ '','' @ py_str vb) of
                     None \<Rightarrow> PyNone | Some outcome \<Rightarrow> outcome)"
    by (simp add: apply_rule_def load_rule_def build_key_def get_or_empty_def)
qed

text \<open>
  The scenario of the specification: the entry for severe anemia with a low count is
  found, mild anemia with a low count matches nothing, and an input mapping without a
  hemoglobin state looks up the key with an empty first field.
\<close>

theorem apply_rule_key_lookup_witness:
  "demo_files demo_path = Some (Parsed demo_rules) \<and>
   input_parameters demo_rules = Some [''hemoglobin_state'', ''wbc_level''] \<and>
   apply_rule demo_files demo_path
     [''hemoglobin_state'' \<mapsto> PyStr ''Severe Anemia'', ''wbc_level'' \<mapsto> PyStr ''Low''] =
     Inr (PyStr ''Critical Hematological State'') \<and>
   apply_rule demo_files demo_path
     [''hemoglobin_state'' \<mapsto> PyStr ''Mild Anemia'', ''wbc_level'' \<mapsto> PyStr ''Low''] =
     Inr PyNone \<and>
   apply_rule demo_files demo_path [''wbc_level'' \<mapsto> PyStr ''Low''] =
     Inr (PyStr ''Unknown State'')"
proof -
  let ?t = "[''Severe Anemia,Low'' \<mapsto> PyStr ''Critical Hematological State'',
             '',Low'' \<mapsto> PyStr ''Unknown State'']"
  have f: "demo_files demo_path = Some (Parsed demo_rules)"
    by (simp add: demo_files_def)
  have p: "input_parameters demo_rules = Some [''hemoglobin_state'', ''wbc_level'']"
    by (simp add: demo_rules_def)
  have r: "rules demo_rules = Some ?t"
    by (simp add: demo_rules_def)
  have 1: "apply_rule demo_files demo_path
     [''hemoglobin_state'' \<mapsto> PyStr ''Severe Anemia'', ''wbc_level'' \<mapsto> PyStr ''Low''] =
     Inr (PyStr ''Critical Hematological State'')"
    using apply_rule_key_lookup [where fs = demo_files and rule_path = demo_path
      and pa = "''hemoglobin_state''" and pb = "''wbc_level''"
      and input_values =
        "[''hemoglobin_state'' \<mapsto> PyStr ''Severe Anemia'', ''wbc_level'' \<mapsto> PyStr ''Low'']"
      and va = "PyStr ''Severe Anemia''" and vb = "PyStr ''Low''", OF f p r]
    by simp
  have 2: "apply_rule demo_files demo_path
     [''hemoglobin_state'' \<mapsto> PyStr ''Mild Anemia'', ''wbc_level'' \<mapsto> PyStr ''Low''] =
     Inr PyNone"
    using apply_rule_key_lookup [where fs = demo_files and rule_path = demo_path
      and pa = "''hemoglobin_state''" and pb = "''wbc_level''"
      and input_values =
        "[''hemoglobin_state'' \<mapsto> PyStr ''Mild Anemia'', ''wbc_level'' \<mapsto> PyStr ''Low'']"
      and va = "PyStr ''Mild Anemia''" and vb = "PyStr ''Low''", OF f p r]
    by simp
  have 3: "apply_rule demo_files demo_path [''wbc_level'' \<mapsto> PyStr ''Low''] =
     Inr (PyStr ''Unknown State'')"
    by (simp add: apply_rule_def load_rule_def build_key_def get_or_empty_def f demo_rules_def)
  from f p 1 2 3 show ?thesis by simp
qed

text \<open>
  Claim C7. When nothing that is a file exists at the rule path, \<open>load_rule\<close> raises
  \<open>FileNotFoundError\<close>, and \<open>apply_rule\<close> raises the same exception to its caller.
\<close>

theorem load_rule_not_found_propagates:
  assumes "fs rule_path = None"
  shows "load_rule fs rule_path =
           Inl (FileNotFoundError (''Rule file not found: '' @ rule_path)) \<and>
         apply_rule fs rule_path input_values =
           Inl (FileNotFoundError (''Rule file not found: '' @ rule_path))"
  using assms by (simp add: load_rule_def apply_rule_def)

text \<open>A path at which the scenario has no file.\<close>

theorem load_rule_not_found_propagates_witness:
  "demo_files ''rules/missing.json'' = None \<and>
   load_rule demo_files ''rules/missing.json'' =
     Inl (FileNotFoundError ''Rule file not found: rules/missing.json'') \<and>
   apply_rule demo_files ''rules/missing.json'' [''wbc_level'' \<mapsto> PyStr ''Low''] =
     Inl (FileNotFoundError ''Rule file not found: rules/missing.json'')"
proof -
  have h: "demo_files ''rules/missing.json'' = None"
    by (simp add: demo_files_def demo_path_def)
  show ?thesis
    using h load_rule_not_found_propagates [where fs = demo_files
      and rule_path = "''rules/missing.json''"
      and input_values = "[''wbc_level'' \<mapsto> PyStr ''Low'']", OF h]
    by simp
qed

section \<open>The temporal value extractor\<close>

text \<open>
  Frames of timestamps. Every cell converts, the order of the raw cells is the order of
  time, and the extraction returns the value of the row that starts last, the first such
  row in the order of the rows when several start at that instant.
\<close>

lemma converts_Inr [simp]: "converts Inr df"
  by (simp add: converts_def)

lemma keeps_Inr:
  "keeps Inr c t r \<longleftrightarrow> Concept_Name r = c \<and> StartDateTime r \<le> t \<and> t \<le> EndDateTime r"
  by (auto simp: keeps_def)

lemma timestamp_frame_latest_start:
  fixes df :: "timestamp dataframe"
  assumes "j < length df"
    and "Concept_Name (df ! j) = c \<and> StartDateTime (df ! j) \<le> t \<and> t \<le> EndDateTime (df ! j)"
    and "\<forall>k < length df. k \<noteq> j \<and>
       Concept_Name (df ! k) = c \<and> StartDateTime (df ! k) \<le> t \<and> t \<le> EndDateTime (df ! k) \<longrightarrow>
       StartDateTime (df ! k) < StartDateTime (df ! j)"
  shows "get_latest_abstracted_value Inr df c t = Inr (Value (df ! j))"
proof -
  from assms have kj: "keeps Inr c t (df ! j)"
    and others: "\<And>k. k < length df \<Longrightarrow> k \<noteq> j \<Longrightarrow> keeps Inr c t (df ! k) \<Longrightarrow>
       StartDateTime (df ! k) < StartDateTime (df ! j)"
    by (simp_all add: keeps_Inr)
  show ?thesis
  proof (rule get_latest_first_max [OF converts_Inr assms(1) kj])
    show "\<forall>k < length df. keeps Inr c t (df ! k) \<longrightarrow>
        StartDateTime (df ! k) \<le> StartDateTime (df ! j)"
    proof (intro allI impI)
      fix k assume "k < length df" "keeps Inr c t (df ! k)"
      then show "StartDateTime (df ! k) \<le> StartDateTime (df ! j)"
        using others [of k] by (cases "k = j") simp_all
    qed
    show "\<forall>k < j. keeps Inr c t (df ! k) \<longrightarrow>
        StartDateTime (df ! k) < StartDateTime (df ! j)"
    proof (intro allI impI)
      fix k assume "k < j" "keeps Inr c t (df ! k)"
      then show "StartDateTime (df ! k) < StartDateTime (df ! j)"
        using others [of k] assms(1) by simp
    qed
  qed
qed

lemma timestamp_frame_tie_first:
  fixes df :: "timestamp dataframe"
  assumes "i < j" and "j < length df"
    and "Concept_Name (df ! i) = c \<and> StartDateTime (df ! i) \<le> t \<and> t \<le> EndDateTime (df ! i)"
    and "Concept_Name (df ! j) = c \<and> StartDateTime (df ! j) \<le> t \<and> t \<le> EndDateTime (df ! j)"
    and "StartDateTime (df ! i) = StartDateTime (df ! j)"
    and "\<forall>k < length df.
           Concept_Name (df ! k) = c \<and> StartDateTime (df ! k) \<le> t \<and> t \<le> EndDateTime (df ! k) \<longrightarrow>
           StartDateTime (df ! k) \<le> StartDateTime (df ! i)"
    and "\<forall>k < i.
           Concept_Name (df ! k) = c \<and> StartDateTime (df ! k) \<le> t \<and> t \<le> EndDateTime (df ! k) \<longrightarrow>
           StartDateTime (df ! k) \<noteq> StartDateTime (df ! i)"
  shows "get_latest_abstracted_value Inr df c t = Inr (Value (df ! i))"
proof (rule get_latest_first_max [OF converts_Inr])
  from assms(1,2) show i: "i < length df" by simp
  from assms(3) show "keeps Inr c t (df ! i)" by (simp add: keeps_Inr)
  from assms(6) show "\<forall>k < length df. keeps Inr c t (df ! k) \<longrightarrow>
      StartDateTime (df ! k) \<le> StartDateTime (df ! i)"
    by (simp add: keeps_Inr)
  show "\<forall>k < i. keeps Inr c t (df ! k) \<longrightarrow> StartDateTime (df ! k) < StartDateTime (df ! i)"
  proof (intro allI impI)
    fix k assume k: "k < i" "keeps Inr c t (df ! k)"
    with i have "k < length df" by simp
    with assms(6) k(2) have "StartDateTime (df ! k) \<le> StartDateTime (df ! i)"
      by (simp add: keeps_Inr)
    moreover from assms(7) k have "StartDateTime (df ! k) \<noteq> StartDateTime (df ! i)"
      by (simp add: keeps_Inr)
    ultimately show "StartDateTime (df ! k) < StartDateTime (df ! i)" by simp
  qed
qed

text \<open>Frames of text dates.\<close>

lemma demo_text_order: "''10/1/2024'' < ''9/1/2024''"
  by (simp add: less_char_def)

lemma demo_text_df_converts: "converts demo_text_dates demo_text_df"
  by (simp add: converts_def demo_text_df_def demo_text_dates_def)


text \<open>
  Claim C2 says that of two overlapping intervals of the same concept the value of the
  one with the later \<open>StartDateTime\<close> is returned. On the frame of text dates both
  hemoglobin rows contain the instant 300; the first starts on day 245, the second on day
  275, and the value of the first is returned: the mask compares the converted dates,
  \<open>idxmax\<close> the text.
\<close>

theorem text_dates_return_earlier_start:
  "keeps demo_text_dates ''Hemoglobin_Level'' 300 (demo_text_df ! 0) \<and>
   keeps demo_text_dates ''Hemoglobin_Level'' 300 (demo_text_df ! 1) \<and>
   demo_text_dates (StartDateTime (demo_text_df ! 0)) = Inr 245 \<and>
   demo_text_dates (StartDateTime (demo_text_df ! 1)) = Inr 275 \<and>
   Value (demo_text_df ! 0) = PyStr ''Mild Anemia'' \<and>
   Value (demo_text_df ! 1) = PyStr ''Severe Anemia'' \<and>
   get_latest_abstracted_value demo_text_dates demo_text_df ''Hemoglobin_Level'' 300 =
     Inr (PyStr ''Mild Anemia'')"
proof -
  have len: "length demo_text_df = 2" by (simp add: demo_text_df_def)
  have k2: "k < 2 \<longleftrightarrow> k = 0 \<or> k = 1" for k :: nat by arith
  have k0: "keeps demo_text_dates ''Hemoglobin_Level'' 300 (demo_text_df ! 0)"
    by (simp add: keeps_def demo_text_df_def demo_text_dates_def)
  have k1: "keeps demo_text_dates ''Hemoglobin_Level'' 300 (demo_text_df ! 1)"
    by (simp add: keeps_def demo_text_df_def demo_text_dates_def)
  have "get_latest_abstracted_value demo_text_dates demo_text_df ''Hemoglobin_Level'' 300 =
          Inr (Value (demo_text_df ! 0))"
  proof (rule get_latest_first_max [OF demo_text_df_converts _ k0])
    show "0 < length demo_text_df" by (simp add: len)
    show "\<forall>j < length demo_text_df. keeps demo_text_dates ''Hemoglobin_Level'' 300 (demo_text_df ! j) \<longrightarrow>
            StartDateTime (demo_text_df ! j) \<le> StartDateTime (demo_text_df ! 0)"
      unfolding len k2 using demo_text_order by (auto simp: demo_text_df_def)
    show "\<forall>j < 0. keeps demo_text_dates ''Hemoglobin_Level'' 300 (demo_text_df ! j) \<longrightarrow>
            StartDateTime (demo_text_df ! j) < StartDateTime (demo_text_df ! 0)"
      by simp
  qed
  moreover have "demo_text_dates (StartDateTime (demo_text_df ! 0)) = Inr 245"
    "demo_text_dates (StartDateTime (demo_text_df ! 1)) = Inr 275"
    "Value (demo_text_df ! 0) = PyStr ''Mild Anemia''"
    "Value (demo_text_df ! 1) = PyStr ''Severe Anemia''"
    by (simp_all add: demo_text_df_def demo_text_dates_def)
  ultimately show ?thesis using k0 k1 by simp
qed


text \<open>
  Claim C6 says that \<open>None\<close> is returned in exactly three situations: the frame is
  empty, no row has the requested concept name, or the snapshot instant is outside the
  interval of every row of that concept. The frame below is in none of them, and
  \<open>None\<close> is returned: it is the value its row holds.
\<close>

theorem null_value_counterexample:
  "demo_null_df \<noteq> [] \<and>
   Concept_Name (demo_null_df ! 0) = ''WBC_Level'' \<and>
   StartDateTime (demo_null_df ! 0) \<le> 30 \<and> 30 \<le> EndDateTime (demo_null_df ! 0) \<and>
   get_latest_abstracted_value Inr demo_null_df ''WBC_Level'' 30 = Inr PyNone"
proof -
  have "get_latest_abstracted_value Inr demo_null_df ''WBC_Level'' 30 =
          Inr (Value (demo_null_df ! 0))"
    by (rule get_latest_first_max [OF converts_Inr])
       (simp_all add: demo_null_df_def keeps_Inr)
  then show ?thesis by (simp add: demo_null_df_def)
qed

text \<open>
  Claim C6, amended. \<open>get_latest_abstracted_value\<close> returns \<open>None\<close> on the empty
  frame. On a frame whose date cells all convert it returns \<open>None\<close> when no row has the
  requested concept name and when no row of that concept passes the mask, that is, when
  the snapshot instant is outside the converted interval of every such row; and it
  returns \<open>None\<close> in exactly these three situations and one more: the selected row, the
  first among the rows that pass the mask with the greatest \<open>StartDateTime\<close> cell,
  holds \<open>None\<close> as its \<open>Value\<close>.
\<close>

theorem get_latest_none_cases:
  "(df = [] \<longrightarrow> get_latest_abstracted_value conv df c t = Inr PyNone) \<and>
   (converts conv df \<longrightarrow>
      ((\<forall>r \<in> set df. Concept_Name r \<noteq> c) \<longrightarrow>
         get_latest_abstracted_value conv df c t = Inr PyNone) \<and>
      ((\<forall>r \<in> set df. Concept_Name r = c \<longrightarrow> \<not> keeps conv c t r) \<longrightarrow>
         get_latest_abstracted_value conv df c t = Inr PyNone) \<and>
      (get_latest_abstracted_value conv df c t = Inr PyNone \<longleftrightarrow>
         df = [] \<or>
         (\<forall>r \<in> set df. Concept_Name r \<noteq> c) \<or>
         (\<forall>r \<in> set df. Concept_Name r = c \<longrightarrow> \<not> keeps conv c t r) \<or>
         (\<exists>i < length df.
            keeps conv c t (df ! i) \<and>
            (\<forall>k < length df. keeps conv c t (df ! k) \<longrightarrow>
               StartDateTime (df ! k) \<le> StartDateTime (df ! i)) \<and>
            (\<forall>k < i. keeps conv c t (df ! k) \<longrightarrow>
               StartDateTime (df ! k) \<noteq> StartDateTime (df ! i)) \<and>
            Value (df ! i) = PyNone)))"
proof -
  have 1: "df = [] \<longrightarrow> get_latest_abstracted_value conv df c t = Inr PyNone"
    by (simp add: get_latest_abstracted_value_def)
  have 2: "get_latest_abstracted_value conv df c t = Inr PyNone"
    if "converts conv df" "\<forall>r \<in> set df. Concept_Name r \<noteq> c"
    using that by (intro get_latest_none) (auto simp: keeps_def)
  have 3: "get_latest_abstracted_value conv df c t = Inr PyNone"
    if "converts conv df" "\<forall>r \<in> set df. Concept_Name r = c \<longrightarrow> \<not> keeps conv c t r"
    using that by (intro get_latest_none) (auto simp: keeps_def)
  have 4: "get_latest_abstracted_value conv df c t = Inr PyNone \<longleftrightarrow>
         df = [] \<or>
         (\<forall>r \<in> set df. Concept_Name r \<noteq> c) \<or>
         (\<forall>r \<in> set df. Concept_Name r = c \<longrightarrow> \<not> keeps conv c t r) \<or>
         (\<exists>i < length df.
            keeps conv c t (df ! i) \<and>
            (\<forall>k < length df. keeps conv c t (df ! k) \<longrightarrow>
               StartDateTime (df ! k) \<le> StartDateTime (df ! i)) \<and>
            (\<forall>k < i. keeps conv c t (df ! k) \<longrightarrow>
               StartDateTime (df ! k) \<noteq> StartDateTime (df ! i)) \<and>
            Value (df ! i) = PyNone)"
    if cv: "converts conv df"
  proof -
  let ?sel = "\<lambda>i. keeps conv c t (df ! i) \<and>
            (\<forall>k < length df. keeps conv c t (df ! k) \<longrightarrow>
               StartDateTime (df ! k) \<le> StartDateTime (df ! i)) \<and>
            (\<forall>k < i. keeps conv c t (df ! k) \<longrightarrow>
               StartDateTime (df ! k) \<noteq> StartDateTime (df ! i))"
  have none: "(\<forall>r \<in> set df. \<not> keeps conv c t r) \<longleftrightarrow>
      df = [] \<or> (\<forall>r \<in> set df. Concept_Name r \<noteq> c) \<or>
      (\<forall>r \<in> set df. Concept_Name r = c \<longrightarrow> \<not> keeps conv c t r)"
    by (auto simp: keeps_def)
  have "get_latest_abstracted_value conv df c t = Inr PyNone \<longleftrightarrow>
         df = [] \<or>
         (\<forall>r \<in> set df. Concept_Name r \<noteq> c) \<or>
         (\<forall>r \<in> set df. Concept_Name r = c \<longrightarrow> \<not> keeps conv c t r) \<or>
         (\<exists>i < length df. ?sel i \<and> Value (df ! i) = PyNone)"
  proof (cases "\<forall>r \<in> set df. \<not> keeps conv c t r")
    case True
    then have "get_latest_abstracted_value conv df c t = Inr PyNone"
      by (rule get_latest_none [OF cv])
    with True none show ?thesis by blast
  next
    case False
    then have ex: "\<exists>r \<in> set df. keeps conv c t r" by blast
    from get_latest_some [OF cv ex] obtain l where
      l: "l < length df" "get_latest_abstracted_value conv df c t = Inr (Value (df ! l))"
         "keeps conv c t (df ! l)"
         "\<forall>j < length df. keeps conv c t (df ! j) \<longrightarrow>
                StartDateTime (df ! j) \<le> StartDateTime (df ! l) \<and>
                (j < l \<longrightarrow> StartDateTime (df ! j) < StartDateTime (df ! l))"
      by blast
    have sel_l: "?sel l"
    proof (intro conjI allI impI)
      show "keeps conv c t (df ! l)" by (rule l(3))
    next
      fix k assume "k < length df" "keeps conv c t (df ! k)"
      with l(4) show "StartDateTime (df ! k) \<le> StartDateTime (df ! l)" by blast
    next
      fix k assume k: "k < l" "keeps conv c t (df ! k)"
      with l(1) have "k < length df" by simp
      with l(4) k have "StartDateTime (df ! k) < StartDateTime (df ! l)" by blast
      then show "StartDateTime (df ! k) \<noteq> StartDateTime (df ! l)" by simp
    qed
    have uniq: "i = l" if "i < length df" "?sel i" for i
    proof (rule ccontr)
      assume "i \<noteq> l"
      then consider "i < l" | "l < i" by linarith
      then show False
      proof cases
        case 1
        with l(4) that have "StartDateTime (df ! i) < StartDateTime (df ! l)" by blast
        moreover from that l(1,3) have "StartDateTime (df ! l) \<le> StartDateTime (df ! i)"
          by blast
        ultimately show False by simp
      next
        case 2
        from that l(1,3) have a: "StartDateTime (df ! l) \<le> StartDateTime (df ! i)" by blast
        from l(4) that have b: "StartDateTime (df ! i) \<le> StartDateTime (df ! l)" by blast
        from that 2 l(3) have "StartDateTime (df ! l) \<noteq> StartDateTime (df ! i)" by blast
        with a b show False by simp
      qed
    qed
    have "(\<exists>i < length df. ?sel i \<and> Value (df ! i) = PyNone) \<longleftrightarrow> Value (df ! l) = PyNone"
      using uniq sel_l l(1) by blast
    moreover from False none have
      "\<not> (df = [] \<or> (\<forall>r \<in> set df. Concept_Name r \<noteq> c) \<or>
          (\<forall>r \<in> set df. Concept_Name r = c \<longrightarrow> \<not> keeps conv c t r))"
      by blast
    ultimately show ?thesis using l(2) by auto
  qed
  then show ?thesis by (simp only: conj_assoc)
  qed
  from 1 2 3 4 show ?thesis by blast
qed

text \<open>
  The empty frame, a concept the scenario's frame does not hold, an instant after both
  hemoglobin intervals, and an instant inside the WBC intervals.
\<close>

theorem get_latest_none_cases_witness:
  "get_latest_abstracted_value Inr ([] :: timestamp dataframe) ''WBC_Level'' 30 = Inr PyNone \<and>
   get_latest_abstracted_value Inr demo_df ''Platelets'' 30 = Inr PyNone \<and>
   get_latest_abstracted_value Inr demo_df ''Hemoglobin_Level'' 70 = Inr PyNone \<and>
   get_latest_abstracted_value Inr demo_df ''WBC_Level'' 70 \<noteq> Inr PyNone"
proof -
  have a: "\<forall>r \<in> set demo_df. Concept_Name r \<noteq> ''Platelets''"
    by (simp add: demo_df_def)
  have b: "\<forall>r \<in> set demo_df. Concept_Name r = ''Hemoglobin_Level'' \<longrightarrow>
        \<not> keeps Inr ''Hemoglobin_Level'' 70 r"
    by (simp add: demo_df_def keeps_Inr)
  have len: "length demo_df = 4" by (simp add: demo_df_def)
  have k4: "k < 4 \<longleftrightarrow> k = 0 \<or> k = 1 \<or> k = 2 \<or> k = 3" for k :: nat by arith
  have "\<forall>r \<in> set demo_df. Value r \<noteq> PyNone" by (simp add: demo_df_def)
  then have v: "\<not> (\<exists>i < length demo_df. Value (demo_df ! i) = PyNone)"
    using nth_mem by blast
  have ne: "demo_df \<noteq> []" by (simp add: demo_df_def)
  have c1: "\<not> (\<forall>r \<in> set demo_df. Concept_Name r \<noteq> ''WBC_Level'')"
    by (simp add: demo_df_def)
  have c2: "\<not> (\<forall>r \<in> set demo_df. Concept_Name r = ''WBC_Level'' \<longrightarrow>
        \<not> keeps Inr ''WBC_Level'' 70 r)"
    by (simp add: demo_df_def keeps_Inr)
  have cv: "converts Inr demo_df" by simp
  have 1: "get_latest_abstracted_value Inr ([] :: timestamp dataframe) ''WBC_Level'' 30 =
             Inr PyNone"
    using get_latest_none_cases [of "[]" Inr "''WBC_Level''" 30] by simp
  have 2: "get_latest_abstracted_value Inr demo_df ''Platelets'' 30 = Inr PyNone"
    using get_latest_none_cases [of demo_df Inr "''Platelets''" 30] a cv by blast
  have 3: "get_latest_abstracted_value Inr demo_df ''Hemoglobin_Level'' 70 = Inr PyNone"
    using get_latest_none_cases [of demo_df Inr "''Hemoglobin_Level''" 70] b cv by blast
  have 4: "get_latest_abstracted_value Inr demo_df ''WBC_Level'' 70 \<noteq> Inr PyNone"
    using get_latest_none_cases [of demo_df Inr "''WBC_Level''" 70] v ne c1 c2 cv by blast
  from 1 2 3 4 show ?thesis by blast
qed

section \<open>The single-subject analyzer\<close>

lemma get_latest_total:
  assumes "converts conv df"
  shows "\<exists>v. get_latest_abstracted_value conv df c t = Inr v"
proof (cases "\<exists>r \<in> set df. keeps conv c t r")
  case True
  from get_latest_some [OF assms this] show ?thesis by blast
next
  case False
  with assms show ?thesis by (simp add: get_latest_none)
qed

lemma get_latest_returns_converts:
  assumes "df \<noteq> []" and "get_latest_abstracted_value conv df c t = Inr v"
  shows "converts conv df"
proof (rule ccontr)
  assume "\<not> converts conv df"
  from get_latest_raises [OF assms(1) this, of c t] assms(2) show False by auto
qed

lemma analyze_no_data:
  assumes "snapshot_time_of e (snapshot_or snapshot_date now) = Inr t"
    and "mediator_run e (py_strip (py_str patient_id)) (snapshot_or snapshot_date now) = Inr []"
  shows "analyze_patient_hematological_state e now patient_id snapshot_date =
           Inr [(''patient_id'', RVal (PyStr (py_strip (py_str patient_id)))),
                (''snapshot_date'', RSnap (snapshot_or snapshot_date now)),
                (''hemoglobin_state'', RVal PyNone),
                (''wbc_level'', RVal PyNone),
                (''hematological_state'', RVal PyNone),
                (''error'', RVal (PyStr ''No abstracted data available for this patient''))]"
  using assms by (simp add: analyze_patient_hematological_state_def Let_def)

lemma analyze_with_data:
  assumes "snapshot_time_of e (snapshot_or snapshot_date now) = Inr t"
    and "mediator_run e (py_strip (py_str patient_id)) (snapshot_or snapshot_date now) = Inr df"
    and "df \<noteq> []"
    and "get_latest_abstracted_value (to_datetime_cell e) df ''Hemoglobin_Level'' t = Inr h"
    and "get_latest_abstracted_value (to_datetime_cell e) df ''WBC_Level'' t = Inr w"
  shows "analyze_patient_hematological_state e now patient_id snapshot_date =
           (case get_hematological_state e h w of
              Inl x \<Rightarrow> Inl x
            | Inr hs \<Rightarrow>
                Inr [(''patient_id'', RVal (PyStr (py_strip (py_str patient_id)))),
                     (''snapshot_date'', RSnap (snapshot_or snapshot_date now)),
                     (''individual_states'',
                        RDict [(''hemoglobin_state'', h), (''wbc_level'', w)]),
                     (''hematological_state'', RVal hs),
                     (''abstracted_data'', RFrame df)])"
  using assms by (simp add: analyze_patient_hematological_state_def Let_def)

lemma snapshot_time_of_rule_files [simp]:
  "snapshot_time_of (e\<lparr>rule_files := fs\<rparr>) s = snapshot_time_of e s"
  by (cases s) simp_all

text \<open>
  Claim C4. When the abstracted collection of the subject is not empty and the extracted
  hemoglobin state or the extracted WBC level is \<open>None\<close>, the analysis returns a result
  whose \<open>hematological_state\<close> is \<open>None\<close>. The result is the same whatever the rule
  files hold, also when there is no rule file at all: the rule is not looked up.
\<close>

theorem incomplete_inputs_give_null_outcome:
  assumes "snapshot_time_of e (snapshot_or snapshot_date now) = Inr t"
    and "mediator_run e (py_strip (py_str patient_id)) (snapshot_or snapshot_date now) = Inr df"
    and "df \<noteq> []"
    and "get_latest_abstracted_value (to_datetime_cell e) df ''Hemoglobin_Level'' t = Inr PyNone \<or>
         get_latest_abstracted_value (to_datetime_cell e) df ''WBC_Level'' t = Inr PyNone"
  shows "\<exists>r. analyze_patient_hematological_state e now patient_id snapshot_date = Inr r \<and>
             map_of r ''hematological_state'' = Some (RVal PyNone) \<and>
             (\<forall>fs. analyze_patient_hematological_state (e\<lparr>rule_files := fs\<rparr>)
                     now patient_id snapshot_date = Inr r)"
proof -
  from assms(4) have cv: "converts (to_datetime_cell e) df"
    using get_latest_returns_converts [OF assms(3)] by blast
  obtain h where h: "get_latest_abstracted_value (to_datetime_cell e) df ''Hemoglobin_Level'' t = Inr h"
    using get_latest_total [OF cv] by blast
  obtain w where w: "get_latest_abstracted_value (to_datetime_cell e) df ''WBC_Level'' t = Inr w"
    using get_latest_total [OF cv] by blast
  from assms(4) h w have "\<not> truthy h \<or> \<not> truthy w" by auto
  then have g: "get_hematological_state e' h w = Inr PyNone" for e'
    by (rule get_hematological_state_falsy)
  let ?r = "[(''patient_id'', RVal (PyStr (py_strip (py_str patient_id)))),
             (''snapshot_date'', RSnap (snapshot_or snapshot_date now)),
             (''individual_states'', RDict [(''hemoglobin_state'', h), (''wbc_level'', w)]),
             (''hematological_state'', RVal PyNone),
             (''abstracted_data'', RFrame df)]"
  have a: "analyze_patient_hematological_state e now patient_id snapshot_date = Inr ?r"
    using analyze_with_data [OF assms(1,2,3) h w] by (simp add: g)
  have b: "analyze_patient_hematological_state (e\<lparr>rule_files := fs\<rparr>)
             now patient_id snapshot_date = Inr ?r" for fs
  proof -
    have 1: "snapshot_time_of (e\<lparr>rule_files := fs\<rparr>) (snapshot_or snapshot_date now) = Inr t"
      using assms(1) by simp
    have 2: "mediator_run (e\<lparr>rule_files := fs\<rparr>) (py_strip (py_str patient_id))
               (snapshot_or snapshot_date now) = Inr df"
      using assms(2) by simp
    have 3: "get_latest_abstracted_value (to_datetime_cell (e\<lparr>rule_files := fs\<rparr>)) df
               ''Hemoglobin_Level'' t = Inr h"
      using h by simp
    have 4: "get_latest_abstracted_value (to_datetime_cell (e\<lparr>rule_files := fs\<rparr>)) df
               ''WBC_Level'' t = Inr w"
      using w by simp
    show ?thesis using analyze_with_data [OF 1 2 assms(3) 3 4] by (simp add: g)
  qed
  have c: "map_of ?r ''hematological_state'' = Some (RVal PyNone)" by simp
  from a b c show ?thesis by blast
qed

lemma demo_snapshot: "snapshot_time_of demo_env (snapshot_or None demo_now) = Inr 30"
  by (simp add: demo_env_def)

lemma demo_cell: "to_datetime_cell demo_env = Inr"
  by (simp add: demo_env_def)

lemma demo_strip_3: "py_strip (py_str (PyInt 3)) = ''3''"
  by (simp add: str_nat.simps py_strip_def is_space_def)

lemma demo_strip_1: "py_strip (py_str (PyInt 1)) = ''1''"
  by (simp add: str_nat.simps py_strip_def is_space_def)

lemma demo_strip_2: "py_strip (py_str (PyStr '' 2 '')) = ''2''"
  by (simp add: py_strip_def is_space_def)

lemma demo_strip_4: "py_strip (py_str (PyStr ''4'')) = ''4''"
  by (simp add: py_strip_def is_space_def)

lemma demo_wbc_only_hemoglobin:
  "get_latest_abstracted_value Inr demo_wbc_only ''Hemoglobin_Level'' 30 = Inr PyNone"
  by (rule get_latest_none [OF converts_Inr]) (simp add: demo_wbc_only_def keeps_Inr)

text \<open>
  Patient 3 of the scenario has a WBC row and no hemoglobin row; the analysis is the same
  with the rule files removed.
\<close>

theorem incomplete_inputs_give_null_outcome_witness:
  "\<exists>r. analyze_patient_hematological_state demo_env demo_now (PyInt 3) None = Inr r \<and>
       map_of r ''hematological_state'' = Some (RVal PyNone) \<and>
       analyze_patient_hematological_state (demo_env\<lparr>rule_files := Map.empty\<rparr>)
         demo_now (PyInt 3) None = Inr r"
proof -
  have m: "mediator_run demo_env (py_strip (py_str (PyInt 3))) (snapshot_or None demo_now) =
             Inr demo_wbc_only"
    unfolding demo_strip_3 by (simp add: demo_env_def)
  have ne: "demo_wbc_only \<noteq> []" by (simp add: demo_wbc_only_def)
  from incomplete_inputs_give_null_outcome
         [OF demo_snapshot m ne disjI1 [OF demo_wbc_only_hemoglobin [folded demo_cell]]]
  show ?thesis by blast
qed

text \<open>
  Claim C5. When the mediator returns an empty collection for the subject, the analysis
  returns, and does not raise, the result whose \<open>hemoglobin_state\<close>, \<open>wbc_level\<close> and
  \<open>hematological_state\<close> are \<open>None\<close> and whose \<open>error\<close> is the no-data message.
\<close>

theorem empty_collection_gives_no_data_result:
  assumes "snapshot_time_of e (snapshot_or snapshot_date now) = Inr t"
    and "mediator_run e (py_strip (py_str patient_id)) (snapshot_or snapshot_date now) = Inr []"
  shows "analyze_patient_hematological_state e now patient_id snapshot_date =
           Inr [(''patient_id'', RVal (PyStr (py_strip (py_str patient_id)))),
                (''snapshot_date'', RSnap (snapshot_or snapshot_date now)),
                (''hemoglobin_state'', RVal PyNone),
                (''wbc_level'', RVal PyNone),
                (''hematological_state'', RVal PyNone),
                (''error'', RVal (PyStr ''No abstracted data available for this patient''))]"
  using assms by (rule analyze_no_data)

text \<open>Patient 4 of the scenario has no abstracted data.\<close>

theorem empty_collection_gives_no_data_result_witness:
  "analyze_patient_hematological_state demo_env demo_now (PyStr ''4'') None =
     Inr [(''patient_id'', RVal (PyStr ''4'')),
          (''snapshot_date'', RSnap (SnapStr demo_now)),
          (''hemoglobin_state'', RVal PyNone),
          (''wbc_level'', RVal PyNone),
          (''hematological_state'', RVal PyNone),
          (''error'', RVal (PyStr ''No abstracted data available for this patient''))]"
proof -
  have m: "mediator_run demo_env (py_strip (py_str (PyStr ''4''))) (snapshot_or None demo_now) =
             Inr []"
    unfolding demo_strip_4 by (simp add: demo_env_def)
  from empty_collection_gives_no_data_result [OF demo_snapshot m]
  show ?thesis by (simp add: demo_strip_4 del: py_str.simps)
qed

text \<open>The analyses of the four patients of the scenario.\<close>

lemma demo_df_hemoglobin:
  "get_latest_abstracted_value Inr demo_df ''Hemoglobin_Level'' 30 = Inr (PyStr ''Severe Anemia'')"
proof -
  have len: "length demo_df = 4" by (simp add: demo_df_def)
  have k4: "k < 4 \<longleftrightarrow> k = 0 \<or> k = 1 \<or> k = 2 \<or> k = 3" for k :: nat by arith
  have k1: "k < 1 \<longleftrightarrow> k = 0" for k :: nat by arith
  have "get_latest_abstracted_value Inr demo_df ''Hemoglobin_Level'' 30 = Inr (Value (demo_df ! 1))"
  proof (rule get_latest_first_max [OF converts_Inr])
    show "1 < length demo_df" by (simp add: len)
    show "keeps Inr ''Hemoglobin_Level'' 30 (demo_df ! 1)" by (simp add: demo_df_def keeps_Inr)
    show "\<forall>j < length demo_df. keeps Inr ''Hemoglobin_Level'' 30 (demo_df ! j) \<longrightarrow>
            StartDateTime (demo_df ! j) \<le> StartDateTime (demo_df ! 1)"
      unfolding len k4 by (auto simp: demo_df_def keeps_Inr)
    show "\<forall>j < 1. keeps Inr ''Hemoglobin_Level'' 30 (demo_df ! j) \<longrightarrow>
            StartDateTime (demo_df ! j) < StartDateTime (demo_df ! 1)"
      unfolding k1 by (auto simp: demo_df_def keeps_Inr)
  qed
  then show ?thesis by (simp add: demo_df_def)
qed

lemma demo_df_wbc:
  "get_latest_abstracted_value Inr demo_df ''WBC_Level'' 30 = Inr (PyStr ''Low'')"
proof -
  have len: "length demo_df = 4" by (simp add: demo_df_def)
  have k4: "k < 4 \<longleftrightarrow> k = 0 \<or> k = 1 \<or> k = 2 \<or> k = 3" for k :: nat by arith
  have k2: "k < 2 \<longleftrightarrow> k = 0 \<or> k = 1" for k :: nat by arith
  have "get_latest_abstracted_value Inr demo_df ''WBC_Level'' 30 = Inr (Value (demo_df ! 2))"
  proof (rule get_latest_first_max [OF converts_Inr])
    show "2 < length demo_df" by (simp add: len)
    show "keeps Inr ''WBC_Level'' 30 (demo_df ! 2)" by (simp add: demo_df_def keeps_Inr)
    show "\<forall>j < length demo_df. keeps Inr ''WBC_Level'' 30 (demo_df ! j) \<longrightarrow>
            StartDateTime (demo_df ! j) \<le> StartDateTime (demo_df ! 2)"
      unfolding len k4 by (auto simp: demo_df_def keeps_Inr)
    show "\<forall>j < 2. keeps Inr ''WBC_Level'' 30 (demo_df ! j) \<longrightarrow>
            StartDateTime (demo_df ! j) < StartDateTime (demo_df ! 2)"
      unfolding k2 by (auto simp: demo_df_def keeps_Inr)
  qed
  then show ?thesis by (simp add: demo_df_def)
qed

lemma demo_wbc_only_wbc:
  "get_latest_abstracted_value Inr demo_wbc_only ''WBC_Level'' 30 = Inr (PyStr ''Low'')"
proof -
  have "get_latest_abstracted_value Inr demo_wbc_only ''WBC_Level'' 30 =
          Inr (Value (demo_wbc_only ! 0))"
    by (rule get_latest_first_max [OF converts_Inr]) (simp_all add: demo_wbc_only_def keeps_Inr)
  then show ?thesis by (simp add: demo_wbc_only_def)
qed

lemma demo_critical:
  "get_hematological_state demo_env (PyStr ''Severe Anemia'') (PyStr ''Low'') =
     Inr (PyStr ''Critical Hematological State'')"
  by (simp add: get_hematological_state_def apply_rule_def load_rule_def build_key_def
        get_or_empty_def demo_env_def demo_files_def demo_rules_def)

lemma demo_analysis_1:
  "analyze_patient_hematological_state demo_env demo_now (PyInt 1) None =
     Inr [(''patient_id'', RVal (PyStr ''1'')),
          (''snapshot_date'', RSnap (SnapStr demo_now)),
          (''individual_states'',
             RDict [(''hemoglobin_state'', PyStr ''Severe Anemia''),
                    (''wbc_level'', PyStr ''Low'')]),
          (''hematological_state'', RVal (PyStr ''Critical Hematological State'')),
          (''abstracted_data'', RFrame demo_df)]"
proof -
  have m: "mediator_run demo_env (py_strip (py_str (PyInt 1))) (snapshot_or None demo_now) =
             Inr demo_df"
    unfolding demo_strip_1 by (simp add: demo_env_def)
  have ne: "demo_df \<noteq> []" by (simp add: demo_df_def)
  from analyze_with_data [OF demo_snapshot m ne demo_df_hemoglobin [folded demo_cell]
         demo_df_wbc [folded demo_cell]]
  show ?thesis by (simp add: demo_critical demo_strip_1 del: py_str.simps)
qed

lemma demo_analysis_2:
  "analyze_patient_hematological_state demo_env demo_now (PyStr '' 2 '') None =
     Inl (Raised ''connection lost'')"
proof -
  have m: "mediator_run demo_env (py_strip (py_str (PyStr '' 2 ''))) (snapshot_or None demo_now) =
             Inl (Raised ''connection lost'')"
    unfolding demo_strip_2 by (simp add: demo_env_def)
  show ?thesis
    unfolding analyze_patient_hematological_state_def Let_def
    by (simp only: demo_snapshot m sum.case)
qed

lemma demo_analysis_3:
  "analyze_patient_hematological_state demo_env demo_now (PyInt 3) None =
     Inr [(''patient_id'', RVal (PyStr ''3'')),
          (''snapshot_date'', RSnap (SnapStr demo_now)),
          (''individual_states'',
             RDict [(''hemoglobin_state'', PyNone), (''wbc_level'', PyStr ''Low'')]),
          (''hematological_state'', RVal PyNone),
          (''abstracted_data'', RFrame demo_wbc_only)]"
proof -
  have m: "mediator_run demo_env (py_strip (py_str (PyInt 3))) (snapshot_or None demo_now) =
             Inr demo_wbc_only"
    unfolding demo_strip_3 by (simp add: demo_env_def)
  have ne: "demo_wbc_only \<noteq> []" by (simp add: demo_wbc_only_def)
  have g: "get_hematological_state demo_env PyNone (PyStr ''Low'') = Inr PyNone"
    by (simp add: get_hematological_state_def)
  from analyze_with_data [OF demo_snapshot m ne demo_wbc_only_hemoglobin [folded demo_cell]
         demo_wbc_only_wbc [folded demo_cell]]
  show ?thesis by (simp add: g demo_strip_3 del: py_str.simps)
qed

lemma demo_analysis_4:
  "analyze_patient_hematological_state demo_env demo_now (PyStr ''4'') None =
     Inr [(''patient_id'', RVal (PyStr ''4'')),
          (''snapshot_date'', RSnap (SnapStr demo_now)),
          (''hemoglobin_state'', RVal PyNone),
          (''wbc_level'', RVal PyNone),
          (''hematological_state'', RVal PyNone),
          (''error'', RVal (PyStr ''No abstracted data available for this patient''))]"
proof -
  have m: "mediator_run demo_env (py_strip (py_str (PyStr ''4''))) (snapshot_or None demo_now) =
             Inr []"
    unfolding demo_strip_4 by (simp add: demo_env_def)
  from analyze_no_data [OF demo_snapshot m]
  show ?thesis by (simp add: demo_strip_4 del: py_str.simps)
qed

lemma analyze_cases:
  assumes "analyze_patient_hematological_state e now patient_id snapshot_date = Inr r"
  shows "(mediator_run e (py_strip (py_str patient_id)) (snapshot_or snapshot_date now) = Inr [] \<and>
          r = [(''patient_id'', RVal (PyStr (py_strip (py_str patient_id)))),
               (''snapshot_date'', RSnap (snapshot_or snapshot_date now)),
               (''hemoglobin_state'', RVal PyNone),
               (''wbc_level'', RVal PyNone),
               (''hematological_state'', RVal PyNone),
               (''error'', RVal (PyStr ''No abstracted data available for this patient''))]) \<or>
         (\<exists>df h w hs.
            mediator_run e (py_strip (py_str patient_id)) (snapshot_or snapshot_date now) = Inr df \<and>
            df \<noteq> [] \<and>
            r = [(''patient_id'', RVal (PyStr (py_strip (py_str patient_id)))),
                 (''snapshot_date'', RSnap (snapshot_or snapshot_date now)),
                 (''individual_states'',
                    RDict [(''hemoglobin_state'', h), (''wbc_level'', w)]),
                 (''hematological_state'', RVal hs),
                 (''abstracted_data'', RFrame df)])"
proof -
  from assms obtain t where t: "snapshot_time_of e (snapshot_or snapshot_date now) = Inr t"
    by (auto simp: analyze_patient_hematological_state_def Let_def split: sum.splits)
  from assms t obtain df where
    df: "mediator_run e (py_strip (py_str patient_id)) (snapshot_or snapshot_date now) = Inr df"
    by (auto simp: analyze_patient_hematological_state_def Let_def split: sum.splits)
  show ?thesis
  proof (cases "df = []")
    case True
    with analyze_no_data [OF t] df assms show ?thesis by simp
  next
    case False
    from assms t df False obtain h where
      h: "get_latest_abstracted_value (to_datetime_cell e) df ''Hemoglobin_Level'' t = Inr h"
      by (cases "get_latest_abstracted_value (to_datetime_cell e) df ''Hemoglobin_Level'' t")
         (auto simp: analyze_patient_hematological_state_def Let_def)
    from assms t df False h obtain w where
      w: "get_latest_abstracted_value (to_datetime_cell e) df ''WBC_Level'' t = Inr w"
      by (cases "get_latest_abstracted_value (to_datetime_cell e) df ''WBC_Level'' t")
         (auto simp: analyze_patient_hematological_state_def Let_def)
    from analyze_with_data [OF t df False h w] assms
    obtain hs where "get_hematological_state e h w = Inr hs"
      "r = [(''patient_id'', RVal (PyStr (py_strip (py_str patient_id)))),
                 (''snapshot_date'', RSnap (snapshot_or snapshot_date now)),
                 (''individual_states'',
                    RDict [(''hemoglobin_state'', h), (''wbc_level'', w)]),
                 (''hematological_state'', RVal hs),
                 (''abstracted_data'', RFrame df)]"
      by (cases "get_hematological_state e h w") auto
    with df False show ?thesis by blast
  qed
qed

text \<open>
  Claim C8 says that the no-data result and the normal result have the same named fields
  in the same shape. In the scenario the normal result of patient 1 has the field
  \<open>individual_states\<close> and no top-level \<open>hemoglobin_state\<close>, while the no-data result
  of patient 4 has a top-level \<open>hemoglobin_state\<close> and no \<open>individual_states\<close>.
\<close>

theorem result_shape_counterexample:
  "''individual_states'' \<in>
     set (result_keys (analyze_patient_hematological_state demo_env demo_now (PyInt 1) None)) \<and>
   ''individual_states'' \<notin>
     set (result_keys (analyze_patient_hematological_state demo_env demo_now (PyStr ''4'') None)) \<and>
   ''hemoglobin_state'' \<in>
     set (result_keys (analyze_patient_hematological_state demo_env demo_now (PyStr ''4'') None)) \<and>
   ''hemoglobin_state'' \<notin>
     set (result_keys (analyze_patient_hematological_state demo_env demo_now (PyInt 1) None))"
  by (simp add: demo_analysis_1 demo_analysis_4 result_keys_def keys_def)

text \<open>
  Claim C8, amended. A result of the analysis has one of two shapes, and both have the
  fields \<open>patient_id\<close>, \<open>snapshot_date\<close> and \<open>hematological_state\<close>. When the
  mediator returns an empty collection the result has in addition the top-level fields
  \<open>hemoglobin_state\<close> and \<open>wbc_level\<close>, both \<open>None\<close> as \<open>hematological_state\<close> is,
  and \<open>error\<close> with the no-data message; it has no \<open>individual_states\<close> and no
  \<open>abstracted_data\<close>. Otherwise the result has in addition \<open>individual_states\<close>, a
  mapping with \<open>hemoglobin_state\<close> and \<open>wbc_level\<close>, and \<open>abstracted_data\<close>; it has
  no \<open>error\<close> and no top-level \<open>hemoglobin_state\<close> or \<open>wbc_level\<close>.
\<close>

theorem result_shape_by_case:
  assumes "analyze_patient_hematological_state e now patient_id snapshot_date = Inr r"
  shows "(mediator_run e (py_strip (py_str patient_id)) (snapshot_or snapshot_date now) = Inr [] \<and>
          r = [(''patient_id'', RVal (PyStr (py_strip (py_str patient_id)))),
               (''snapshot_date'', RSnap (snapshot_or snapshot_date now)),
               (''hemoglobin_state'', RVal PyNone),
               (''wbc_level'', RVal PyNone),
               (''hematological_state'', RVal PyNone),
               (''error'', RVal (PyStr ''No abstracted data available for this patient''))] \<and>
          keys r = [''patient_id'', ''snapshot_date'', ''hemoglobin_state'', ''wbc_level'',
                    ''hematological_state'', ''error'']) \<or>
         (\<exists>df h w hs.
            mediator_run e (py_strip (py_str patient_id)) (snapshot_or snapshot_date now) =
              Inr df \<and> df \<noteq> [] \<and>
            r = [(''patient_id'', RVal (PyStr (py_strip (py_str patient_id)))),
                 (''snapshot_date'', RSnap (snapshot_or snapshot_date now)),
                 (''individual_states'',
                    RDict [(''hemoglobin_state'', h), (''wbc_level'', w)]),
                 (''hematological_state'', RVal hs),
                 (''abstracted_data'', RFrame df)] \<and>
            keys r = [''patient_id'', ''snapshot_date'', ''individual_states'',
                      ''hematological_state'', ''abstracted_data''])"
  using analyze_cases [OF assms] by (auto simp: keys_def)

text \<open>The fields of the results of patients 4 and 1 of the scenario.\<close>

theorem result_shape_by_case_witness:
  "result_keys (analyze_patient_hematological_state demo_env demo_now (PyStr ''4'') None) =
     [''patient_id'', ''snapshot_date'', ''hemoglobin_state'', ''wbc_level'',
      ''hematological_state'', ''error''] \<and>
   result_keys (analyze_patient_hematological_state demo_env demo_now (PyInt 1) None) =
     [''patient_id'', ''snapshot_date'', ''individual_states'',
      ''hematological_state'', ''abstracted_data'']"
  using result_shape_by_case [OF demo_analysis_4] result_shape_by_case [OF demo_analysis_1]
  by (simp add: demo_analysis_4 demo_analysis_1 result_keys_def keys_def)

section \<open>The population analyzer\<close>

lemma scan_patients_eq:
  "scan_patients e sd i rows results =
     results @ map (\<lambda>(j, r). scan_row e sd j r) (enumerate i rows)"
  by (induction rows arbitrary: i results) simp_all

text \<open>
  Claim C3. When the query file can be read and the roster is fetched, the population
  scan returns one entry per roster row, in roster order. The entry of a row whose
  analysis raises is the error record with the row's patient id, first name, last name
  and the message of the exception; the entry of any other row is the analysis with the
  first and last name added. An exception raised for one row ends neither the scan nor
  the entries of the other rows.
\<close>

theorem scan_isolates_failures:
  assumes "query_file e = Inr sql" and "fetch_records e = Inr roster"
  shows "\<exists>results.
           analyze_all_patients_hematological_state e snapshot_date = Inr results \<and>
           length results = length roster \<and>
           (\<forall>i < length roster.
              results ! i =
                (case roster ! i of
                   (patient_id, first_name, last_name, sex) \<Rightarrow>
                     (case analyze_patient_hematological_state e (clock e i)
                             patient_id snapshot_date of
                        Inr analysis \<Rightarrow>
                          dict_set (dict_set analysis ''first_name'' (RVal first_name))
                            ''last_name'' (RVal last_name)
                      | Inl x \<Rightarrow>
                          [(''patient_id'', RVal patient_id),
                           (''first_name'', RVal first_name),
                           (''last_name'', RVal last_name),
                           (''error'', RVal (PyStr (str_exc x)))])))"
proof -
  let ?results = "map (\<lambda>(j, r). scan_row e snapshot_date j r) (enumerate 0 roster)"
  have a: "analyze_all_patients_hematological_state e snapshot_date = Inr ?results"
    using assms
    by (cases "roster = []")
       (simp_all add: analyze_all_patients_hematological_state_def scan_patients_eq)
  have b: "length ?results = length roster" by simp
  have c: "?results ! i =
                (case roster ! i of
                   (patient_id, first_name, last_name, sex) \<Rightarrow>
                     (case analyze_patient_hematological_state e (clock e i)
                             patient_id snapshot_date of
                        Inr analysis \<Rightarrow>
                          dict_set (dict_set analysis ''first_name'' (RVal first_name))
                            ''last_name'' (RVal last_name)
                      | Inl x \<Rightarrow>
                          [(''patient_id'', RVal patient_id),
                           (''first_name'', RVal first_name),
                           (''last_name'', RVal last_name),
                           (''error'', RVal (PyStr (str_exc x)))]))"
    if "i < length roster" for i
  proof -
    obtain p f l s where r: "roster ! i = (p, f, l, s)" by (cases "roster ! i") auto
    from that have "?results ! i = scan_row e snapshot_date i (roster ! i)"
      by (simp add: nth_enumerate_eq)
    with r show ?thesis by simp
  qed
  from a b c show ?thesis by blast
qed

text \<open>
  The roster of the scenario has three rows and the mediator fails for the second: the
  scan returns the analysis of patient 1, the error record of patient 2 and the analysis
  of patient 3, in this order.
\<close>

theorem scan_isolates_failures_witness:
  "analyze_all_patients_hematological_state demo_env None =
     Inr [[(''patient_id'', RVal (PyStr ''1'')),
           (''snapshot_date'', RSnap (SnapStr demo_now)),
           (''individual_states'',
              RDict [(''hemoglobin_state'', PyStr ''Severe Anemia''),
                     (''wbc_level'', PyStr ''Low'')]),
           (''hematological_state'', RVal (PyStr ''Critical Hematological State'')),
           (''abstracted_data'', RFrame demo_df),
           (''first_name'', RVal (PyStr ''Ann'')),
           (''last_name'', RVal (PyStr ''Lee''))],
          [(''patient_id'', RVal (PyStr '' 2 '')),
           (''first_name'', RVal (PyStr ''Bo'')),
           (''last_name'', RVal (PyStr ''Kim'')),
           (''error'', RVal (PyStr ''connection lost''))],
          [(''patient_id'', RVal (PyStr ''3'')),
           (''snapshot_date'', RSnap (SnapStr demo_now)),
           (''individual_states'',
              RDict [(''hemoglobin_state'', PyNone), (''wbc_level'', PyStr ''Low'')]),
           (''hematological_state'', RVal PyNone),
           (''abstracted_data'', RFrame demo_wbc_only),
           (''first_name'', RVal (PyStr ''Cy'')),
           (''last_name'', RVal (PyStr ''Roe''))]]"
proof -
  let ?roster = "[(PyInt 1, PyStr ''Ann'', PyStr ''Lee'', PyStr ''F''),
                  (PyStr '' 2 '', PyStr ''Bo'', PyStr ''Kim'', PyStr ''M''),
                  (PyInt 3, PyStr ''Cy'', PyStr ''Roe'', PyStr ''F'')]"
  have q: "query_file demo_env = Inr ''SELECT * FROM Patients''"
    by (simp add: demo_env_def)
  have f: "fetch_records demo_env = Inr ?roster"
    by (simp add: demo_env_def)
  have c: "clock demo_env i = demo_now" for i by (simp add: demo_env_def)
  from scan_isolates_failures [OF q f, of None] obtain results where
    r: "analyze_all_patients_hematological_state demo_env None = Inr results"
       "length results = length ?roster"
       "\<forall>i < length ?roster.
              results ! i =
                (case ?roster ! i of
                   (patient_id, first_name, last_name, sex) \<Rightarrow>
                     (case analyze_patient_hematological_state demo_env (clock demo_env i)
                             patient_id None of
                        Inr analysis \<Rightarrow>
                          dict_set (dict_set analysis ''first_name'' (RVal first_name))
                            ''last_name'' (RVal last_name)
                      | Inl x \<Rightarrow>
                          [(''patient_id'', RVal patient_id),
                           (''first_name'', RVal first_name),
                           (''last_name'', RVal last_name),
                           (''error'', RVal (PyStr (str_exc x)))]))"
    by blast
  from r(3) have 0: "results ! 0 =
          [(''patient_id'', RVal (PyStr ''1'')),
           (''snapshot_date'', RSnap (SnapStr demo_now)),
           (''individual_states'',
              RDict [(''hemoglobin_state'', PyStr ''Severe Anemia''),
                     (''wbc_level'', PyStr ''Low'')]),
           (''hematological_state'', RVal (PyStr ''Critical Hematological State'')),
           (''abstracted_data'', RFrame demo_df),
           (''first_name'', RVal (PyStr ''Ann'')),
           (''last_name'', RVal (PyStr ''Lee''))]"
    by (simp add: c demo_analysis_1)
  from r(3) have 1: "results ! 1 =
          [(''patient_id'', RVal (PyStr '' 2 '')),
           (''first_name'', RVal (PyStr ''Bo'')),
           (''last_name'', RVal (PyStr ''Kim'')),
           (''error'', RVal (PyStr ''connection lost''))]"
    by (simp add: c demo_analysis_2)
  from r(3) have 2: "results ! 2 =
          [(''patient_id'', RVal (PyStr ''3'')),
           (''snapshot_date'', RSnap (SnapStr demo_now)),
           (''individual_states'',
              RDict [(''hemoglobin_state'', PyNone), (''wbc_level'', PyStr ''Low'')]),
           (''hematological_state'', RVal PyNone),
           (''abstracted_data'', RFrame demo_wbc_only),
           (''first_name'', RVal (PyStr ''Cy'')),
           (''last_name'', RVal (PyStr ''Roe''))]"
    by (simp add: c demo_analysis_3)
  from r(2) have "length results = 3" by simp
  then obtain x y z where "results = [x, y, z]"
    by (auto simp: numeral_3_eq_3 length_Suc_conv)
  with 0 1 2 r(1) show ?thesis by simp
qed

section \<open>Falsy inputs and empty key fields\<close>

text \<open>
  Claim C10. \<open>get_hematological_state\<close> returns \<open>None\<close> whenever one of its two
  values is falsy (\<open>None\<close>, the empty string, zero or \<open>False\<close>), whatever the rule
  files hold. Hence an entry of the rule table is never matched through the analyzer when
  its key, split at the commas, has one field per declared parameter and an empty field
  at a position where \<open>hemoglobin_state\<close> or \<open>wbc_level\<close> is declared: replacing or
  removing that entry changes neither the outcome of \<open>get_hematological_state\<close> nor the
  result of the analysis.
\<close>

theorem empty_field_entries_unreachable:
  "(\<not> truthy h \<or> \<not> truthy w \<longrightarrow> get_hematological_state e h w = Inr PyNone) \<and>
   (rule_files e (HEMATOLOGICAL_RULES e) = Some (Parsed d) \<and>
    input_parameters d = Some params \<and> rules d = Some table \<and>
    i < length params \<and>
    (params ! i = ''hemoglobin_state'' \<or> params ! i = ''wbc_level'') \<and>
    length (split_comma k) = length params \<and> split_comma k ! i = [] \<longrightarrow>
    get_hematological_state
      (e\<lparr>rule_files := (rule_files e)(HEMATOLOGICAL_RULES e \<mapsto>
           Parsed (d\<lparr>rules := Some (table(k := x))\<rparr>))\<rparr>) h w =
      get_hematological_state e h w \<and>
    analyze_patient_hematological_state
      (e\<lparr>rule_files := (rule_files e)(HEMATOLOGICAL_RULES e \<mapsto>
           Parsed (d\<lparr>rules := Some (table(k := x))\<rparr>))\<rparr>) now patient_id snapshot_date =
      analyze_patient_hematological_state e now patient_id snapshot_date)"
proof (intro conjI impI)
  assume "\<not> truthy h \<or> \<not> truthy w"
  then show "get_hematological_state e h w = Inr PyNone"
    by (rule get_hematological_state_falsy)
next
  let ?e = "e\<lparr>rule_files := (rule_files e)(HEMATOLOGICAL_RULES e \<mapsto>
              Parsed (d\<lparr>rules := Some (table(k := x))\<rparr>))\<rparr>"
  assume a: "rule_files e (HEMATOLOGICAL_RULES e) = Some (Parsed d) \<and>
    input_parameters d = Some params \<and> rules d = Some table \<and>
    i < length params \<and>
    (params ! i = ''hemoglobin_state'' \<or> params ! i = ''wbc_level'') \<and>
    length (split_comma k) = length params \<and> split_comma k ! i = []"
  have g: "get_hematological_state ?e h' w' = get_hematological_state e h' w'" for h' w'
    using a by (intro get_hematological_state_entry_irrelevant [where i = i and params = params]) simp_all
  show "get_hematological_state ?e h w = get_hematological_state e h w" by (rule g)
  show "analyze_patient_hematological_state ?e now patient_id snapshot_date =
        analyze_patient_hematological_state e now patient_id snapshot_date"
  proof -
    have m: "mediator_run ?e = mediator_run e" by simp
    have t: "snapshot_time_of ?e s = snapshot_time_of e s" for s by simp
    have c: "to_datetime_cell ?e = to_datetime_cell e" by simp
    show ?thesis
      unfolding analyze_patient_hematological_state_def Let_def g m t c ..
  qed
qed

text \<open>
  The table of the scenario has the key \<open>,Low\<close>, whose first field is empty. The
  evaluator alone matches it for an input without a hemoglobin state; the engine returns
  \<open>None\<close> for an empty or missing hemoglobin state, and removing the entry changes no
  outcome.
\<close>

theorem empty_field_entries_unreachable_witness:
  "split_comma '',Low'' = [[], ''Low''] \<and>
   apply_rule demo_files demo_path [''wbc_level'' \<mapsto> PyStr ''Low''] =
     Inr (PyStr ''Unknown State'') \<and>
   get_hematological_state demo_env (PyStr []) (PyStr ''Low'') = Inr PyNone \<and>
   get_hematological_state demo_env PyNone (PyStr ''Low'') = Inr PyNone \<and>
   (\<forall>h w. get_hematological_state
      (demo_env\<lparr>rule_files := (rule_files demo_env)(HEMATOLOGICAL_RULES demo_env \<mapsto>
           Parsed (demo_rules\<lparr>rules := Some
             ([''Severe Anemia,Low'' \<mapsto> PyStr ''Critical Hematological State'',
               '',Low'' \<mapsto> PyStr ''Unknown State''] ('',Low'' := None))\<rparr>))\<rparr>) h w =
      get_hematological_state demo_env h w)"
proof -
  let ?t = "[''Severe Anemia,Low'' \<mapsto> PyStr ''Critical Hematological State'',
             '',Low'' \<mapsto> PyStr ''Unknown State'']"
  have s: "split_comma '',Low'' = [[], ''Low'']" by simp
  have f: "rule_files demo_env (HEMATOLOGICAL_RULES demo_env) = Some (Parsed demo_rules)"
    by (simp add: demo_env_def demo_files_def)
  have p: "input_parameters demo_rules = Some [''hemoglobin_state'', ''wbc_level'']"
    by (simp add: demo_rules_def)
  have r: "rules demo_rules = Some ?t" by (simp add: demo_rules_def)
  have hyp: "rule_files demo_env (HEMATOLOGICAL_RULES demo_env) = Some (Parsed demo_rules) \<and>
    input_parameters demo_rules = Some [''hemoglobin_state'', ''wbc_level''] \<and>
    rules demo_rules = Some ?t \<and>
    0 < length [''hemoglobin_state'', ''wbc_level''] \<and>
    ([''hemoglobin_state'', ''wbc_level''] ! 0 = ''hemoglobin_state'' \<or>
     [''hemoglobin_state'', ''wbc_level''] ! 0 = ''wbc_level'') \<and>
    length (split_comma '',Low'') = length [''hemoglobin_state'', ''wbc_level''] \<and>
    split_comma '',Low'' ! 0 = []"
    using f p r by simp
  have 1: "apply_rule demo_files demo_path [''wbc_level'' \<mapsto> PyStr ''Low''] =
     Inr (PyStr ''Unknown State'')"
    by (simp add: apply_rule_def load_rule_def build_key_def get_or_empty_def
          demo_files_def demo_rules_def)
  have 2: "get_hematological_state demo_env (PyStr []) (PyStr ''Low'') = Inr PyNone"
    using empty_field_entries_unreachable [of "PyStr []" "PyStr ''Low''" demo_env] by simp
  have 3: "get_hematological_state demo_env PyNone (PyStr ''Low'') = Inr PyNone"
    using empty_field_entries_unreachable [of PyNone "PyStr ''Low''" demo_env] by simp
  have 4: "get_hematological_state
      (demo_env\<lparr>rule_files := (rule_files demo_env)(HEMATOLOGICAL_RULES demo_env \<mapsto>
           Parsed (demo_rules\<lparr>rules := Some (?t ('',Low'' := None))\<rparr>))\<rparr>) h w =
      get_hematological_state demo_env h w" for h w
    using empty_field_entries_unreachable [where e = demo_env and d = demo_rules
        and params = "[''hemoglobin_state'', ''wbc_level'']" and table = ?t and i = 0
        and k = "'',Low''" and x = None and h = h and w = w, THEN conjunct2, THEN mp, OF hyp]
    by (rule conjunct1)
  from s 1 2 3 4 show ?thesis by blast
qed


end
